theory Spec2Isabelle
  imports Main "HOL-Library.Word"
begin

section \<open>The task runner of the worker SDK (sdk/worker/task\_runner.go)\<close>

text \<open>
  Go's \<open>int\<close> is a 64-bit word here, as on the platforms the services are built for:
  \<open>+\<close> and \<open>-\<close> wrap around, and comparisons read the word as two's complement
  (\<open>sint\<close>). A \<open>time.Duration\<close> is only stored, compared with 0 and converted, and the
  retry attempt only runs from 0 to 4, so both are \<open>int\<close>. Log calls and metrics are
  left out.

  Each method is given twice. First as the function its body computes when nothing else
  touches the runner while it is running. Then, in the second half, cut at the points
  where it holds no lock, so that the goroutines of the runner can be interleaved: the
  callers of the exported methods, the poll loops and the executions.
\<close>

subsection \<open>Data\<close>

type_synonym goint = "64 word"

definition MaxInt64 :: goint where
  "MaxInt64 = 9223372036854775807"

definition MinInt64 :: goint where
  "MinInt64 = - 9223372036854775808"

type_synonym Duration = int

definition Millisecond :: Duration where
  "Millisecond = 1000000"

definition Second :: Duration where
  "Second = 1000000000"

type_synonym payload = string

record Task =
  TaskId :: string
  TaskDefName :: string
  WorkflowInstanceId :: string
  Status :: string
  InputData :: payload

datatype TaskResultStatus = COMPLETED | FAILED | FAILED_WITH_TERMINAL_ERROR | IN_PROGRESS

record TaskResult =
  rTaskId :: string
  rWorkflowInstanceId :: string
  rStatus :: TaskResultStatus
  rOutputData :: "payload option"
  rReasonForIncompletion :: string

text \<open>What a call of a handler does: it returns \<open>(output, err)\<close> or it panics.\<close>

datatype exec_result = Returns "payload option" "string option" | Panics string

text \<open>\<open>model.ExecuteTaskFunction\<close>; \<open>None\<close> is the nil function value.\<close>

type_synonym ExecuteTaskFunction = "Task \<Rightarrow> exec_result"

text \<open>\<open>worker.Options\<close> and a value of the \<open>Worker\<close> interface (\<open>BaseWorker\<close>).\<close>

record Options =
  DomainOpt :: string
  BatchSize :: goint
  PollInterval :: Duration
  PollTimeout :: Duration
  BaseContext :: "string option"

record Worker =
  wTaskName :: string
  wHandler :: "ExecuteTaskFunction option"
  wOptions :: Options

text \<open>What a call that may panic or fail gives back.\<close>

datatype 'a outcome = Panic string | Failure string | Value 'a

text \<open>
  A request sent by \<open>BatchPoll\<close>: task name, \<open>Count\<close>, domain and timeout (both optional).
\<close>

record poll_request =
  reqTaskName :: string
  reqCount :: int
  reqDomain :: "string option"
  reqTimeout :: "int option"

text \<open>
  What the remote service answers to one batch poll: an error, HTTP 204, a list of tasks,
  or a panic below the call (the deferred handler of \<open>work4ever\<close> is there for it).
\<close>

datatype poll_response =
  PollError string | PollNoContent | PollTasks "Task list" | PollPanic string

text \<open>
  Where a goroutine running \<open>work4ever\<close> stands: before the lock-protected read or the
  remote call it makes next, with the local variables it holds. In order: the loop test
  \<open>isWorkerRegistered\<close>; in \<open>workOnce\<close>, \<open>isPaused\<close>; in \<open>getAvailableWorkerAmount\<close>,
  \<open>getMaxAllowedWorkers\<close>, then \<open>getRunningWorkers\<close> (holding \<open>allowed\<close>); in
  \<open>batchPoll\<close>, \<open>GetPollTimeoutForTask\<close> (holding \<open>count\<close>), then the remote
  \<open>BatchPoll\<close> (holding \<open>count\<close> and \<open>timeout\<close>); \<open>GetPollIntervalForTask\<close> after an
  empty answer; the \<open>range\<close> loop over the tasks still to be dispatched.
\<close>

datatype loop_pc =
    AtRegistered
  | AtPaused
  | AtAllowed
  | AtRunning goint
  | AtTimeout goint
  | AtBatchPoll goint Duration
  | AtInterval
  | AtDispatch "Task list"

text \<open>
  Where a caller of an exported method stands: before the critical section it enters
  next, with its arguments and local variables.
\<close>

datatype call =
    SetBatchSize_check string goint
  | SetBatchSize_write string goint
  | IncreaseBatchSize_check string goint
  | IncreaseBatchSize_write string goint
  | DecreaseBatchSize_check string goint
  | DecreaseBatchSize_write string goint
  | Pause_call string
  | Resume_call string
  | Shutdown_batchSize string
  | Shutdown_paused string
  | Shutdown_pollInterval string
  | Shutdown_pollTimeout string
  | startWorker_pollInterval string "ExecuteTaskFunction option" goint Duration string
  | startWorker_resume string "ExecuteTaskFunction option" goint string
  | startWorker_previous string "ExecuteTaskFunction option" goint string
  | startWorker_increase string "ExecuteTaskFunction option" goint string goint
  | startWorker_go string "ExecuteTaskFunction option" string
  | RegisterWorker_pollInterval "Worker option"
  | RegisterWorker_pollTimeout Worker

text \<open>
  The \<open>TaskRunner\<close> struct, followed by what the runner does to the world around it:
  the package variable \<open>sleepForOnGenericError\<close>, the counter of the wait group, the
  live goroutines running \<open>work4ever\<close> (with the arguments of their \<open>go\<close> statement and
  where they stand) and those spawned for \<open>executeAndUpdateTask\<close>, the calls of exported
  methods under way, the batch polls and task updates sent, the sleeps taken, and whether
  a panic has reached the top of a goroutine.
\<close>

record TaskRunner =
  batchSizeByTaskName :: "string \<rightharpoonup> goint"
  runningWorkersByTaskName :: "string \<rightharpoonup> goint"
  pollIntervalByTaskName :: "string \<rightharpoonup> Duration"
  pausedWorkers :: "string \<rightharpoonup> bool"
  pollTimeout :: Duration
  pollTimeoutByTaskName :: "string \<rightharpoonup> Duration"
  baseCtx :: "string option"
  sleepForOnGenericError :: Duration
  workerWaitGroup :: int
  pollLoops :: "(string \<times> ExecuteTaskFunction option \<times> string \<times> loop_pc) list"
  executions :: "(string \<times> Task \<times> ExecuteTaskFunction option) list"
  calls :: "call list"
  pollCalls :: "poll_request list"
  updateCalls :: "TaskResult list"
  slept :: "Duration list"
  crashed :: bool

definition NewTaskRunner :: TaskRunner where
  "NewTaskRunner =
     \<lparr>batchSizeByTaskName = Map.empty,
      runningWorkersByTaskName = Map.empty,
      pollIntervalByTaskName = Map.empty,
      pausedWorkers = Map.empty,
      pollTimeout = - 1 * Millisecond,
      pollTimeoutByTaskName = Map.empty,
      baseCtx = None,
      sleepForOnGenericError = 200 * Millisecond,
      workerWaitGroup = 0,
      pollLoops = [],
      executions = [],
      calls = [],
      pollCalls = [],
      updateCalls = [],
      slept = [],
      crashed = False\<rparr>"

definition sleepForOnNoAvailableWorker :: Duration where
  "sleepForOnNoAvailableWorker = 10 * Millisecond"

definition taskUpdateRetryAttemptsLimit :: int where
  "taskUpdateRetryAttemptsLimit = 3"

text \<open>Reading a Go map of ints at a key it does not hold gives 0.\<close>

definition at0 :: "(string \<rightharpoonup> goint) \<Rightarrow> string \<Rightarrow> goint" where
  "at0 m k = (case m k of None \<Rightarrow> 0 | Some v \<Rightarrow> v)"

definition Sleep :: "Duration \<Rightarrow> TaskRunner \<Rightarrow> TaskRunner" where
  "Sleep d c = c\<lparr>slept := slept c @ [d]\<rparr>"

subsection \<open>The registry: lookups\<close>

definition isWorkerRegistered :: "TaskRunner \<Rightarrow> string \<Rightarrow> bool" where
  "isWorkerRegistered c taskName = (batchSizeByTaskName c taskName \<noteq> None)"

definition getMaxAllowedWorkers :: "TaskRunner \<Rightarrow> string \<Rightarrow> string + goint" where
  "getMaxAllowedWorkers c taskName =
     (case batchSizeByTaskName c taskName of None \<Rightarrow> Inr 0 | Some amount \<Rightarrow> Inr amount)"

definition getRunningWorkers :: "TaskRunner \<Rightarrow> string \<Rightarrow> string + goint" where
  "getRunningWorkers c taskName =
     (case runningWorkersByTaskName c taskName of None \<Rightarrow> Inr 0 | Some amount \<Rightarrow> Inr amount)"

definition getAvailableWorkerAmount :: "TaskRunner \<Rightarrow> string \<Rightarrow> string + goint" where
  "getAvailableWorkerAmount c taskName =
     (case getMaxAllowedWorkers c taskName of
        Inl err \<Rightarrow> Inl err
      | Inr allowed \<Rightarrow>
          (case getRunningWorkers c taskName of
             Inl err \<Rightarrow> Inl err
           | Inr running \<Rightarrow> Inr (allowed - running)))"

definition isPaused :: "TaskRunner \<Rightarrow> string \<Rightarrow> bool" where
  "isPaused c taskName = (case pausedWorkers c taskName of None \<Rightarrow> False | Some b \<Rightarrow> b)"

definition GetPollIntervalForTask :: "TaskRunner \<Rightarrow> string \<Rightarrow> string + Duration" where
  "GetPollIntervalForTask c taskName =
     (case pollIntervalByTaskName c taskName of
        None \<Rightarrow> Inl (''poll interval not registered for task: '' @ taskName)
      | Some pollInterval \<Rightarrow> Inr pollInterval)"

definition GetPollTimeoutForTask :: "TaskRunner \<Rightarrow> string \<Rightarrow> string + Duration" where
  "GetPollTimeoutForTask c taskName =
     (case pollTimeoutByTaskName c taskName of
        None \<Rightarrow> Inr (pollTimeout c)
      | Some t \<Rightarrow> Inr t)"

definition GetBatchSizeForTask :: "TaskRunner \<Rightarrow> string \<Rightarrow> goint" where
  "GetBatchSizeForTask c taskName =
     (case batchSizeByTaskName c taskName of None \<Rightarrow> 0 | Some batchSize \<Rightarrow> batchSize)"

subsection \<open>The registry: mutations\<close>

text \<open>
  The part of \<open>SetBatchSize\<close>, \<open>IncreaseBatchSize\<close> and \<open>DecreaseBatchSize\<close> between
  \<open>batchSizeByTaskNameMutex.Lock()\<close> and the deferred \<open>Unlock\<close>.
\<close>

definition SetBatchSize_locked :: "TaskRunner \<Rightarrow> string \<Rightarrow> goint \<Rightarrow> TaskRunner" where
  "SetBatchSize_locked c taskName batchSize =
     c\<lparr>batchSizeByTaskName := (batchSizeByTaskName c)(taskName \<mapsto> batchSize)\<rparr>"

definition IncreaseBatchSize_locked :: "TaskRunner \<Rightarrow> string \<Rightarrow> goint \<Rightarrow> TaskRunner" where
  "IncreaseBatchSize_locked c taskName batchSize =
     c\<lparr>batchSizeByTaskName :=
         (batchSizeByTaskName c)(taskName \<mapsto> at0 (batchSizeByTaskName c) taskName + batchSize)\<rparr>"

definition DecreaseBatchSize_locked :: "TaskRunner \<Rightarrow> string \<Rightarrow> goint \<Rightarrow> TaskRunner" where
  "DecreaseBatchSize_locked c taskName batchSize =
     (let previous = at0 (batchSizeByTaskName c) taskName;
          c1 = c\<lparr>batchSizeByTaskName :=
                  (batchSizeByTaskName c)(taskName \<mapsto> previous - batchSize)\<rparr>
      in if sint (previous - batchSize) \<le> 0
         then c1\<lparr>batchSizeByTaskName := (batchSizeByTaskName c1)(taskName \<mapsto> 0)\<rparr>
         else c1)"

text \<open>Each method returns its \<open>error\<close> (\<open>None\<close> is nil) and the runner afterwards.\<close>

definition SetBatchSize :: "TaskRunner \<Rightarrow> string \<Rightarrow> goint \<Rightarrow> string option \<times> TaskRunner" where
  "SetBatchSize c taskName batchSize =
     (if sint batchSize < 0 then (Some ''batchSize can not be negative'', c)
      else if \<not> isWorkerRegistered c taskName
      then (Some (''no worker registered for taskName: '' @ taskName), c)
      else (None, SetBatchSize_locked c taskName batchSize))"

definition IncreaseBatchSize :: "TaskRunner \<Rightarrow> string \<Rightarrow> goint \<Rightarrow> string option \<times> TaskRunner" where
  "IncreaseBatchSize c taskName batchSize =
     (if sint batchSize < 1 then (Some ''batchSize value must be positive'', c)
      else if \<not> isWorkerRegistered c taskName
      then (Some (''no worker registered for taskName: '' @ taskName), c)
      else (None, IncreaseBatchSize_locked c taskName batchSize))"

definition DecreaseBatchSize :: "TaskRunner \<Rightarrow> string \<Rightarrow> goint \<Rightarrow> string option \<times> TaskRunner" where
  "DecreaseBatchSize c taskName batchSize =
     (if sint batchSize < 1 then (Some ''batchSize value must be positive'', c)
      else if \<not> isWorkerRegistered c taskName
      then (Some (''no worker registered for taskName: '' @ taskName), c)
      else (None, DecreaseBatchSize_locked c taskName batchSize))"

definition Pause :: "TaskRunner \<Rightarrow> string \<Rightarrow> TaskRunner" where
  "Pause c taskName = c\<lparr>pausedWorkers := (pausedWorkers c)(taskName \<mapsto> True)\<rparr>"

definition Resume :: "TaskRunner \<Rightarrow> string \<Rightarrow> TaskRunner" where
  "Resume c taskName = c\<lparr>pausedWorkers := (pausedWorkers c)(taskName \<mapsto> False)\<rparr>"

definition Shutdown :: "TaskRunner \<Rightarrow> string \<Rightarrow> TaskRunner" where
  "Shutdown c taskName =
     c\<lparr>batchSizeByTaskName := (batchSizeByTaskName c)(taskName := None),
       pausedWorkers := (pausedWorkers c)(taskName := None),
       pollIntervalByTaskName := (pollIntervalByTaskName c)(taskName := None),
       pollTimeoutByTaskName := (pollTimeoutByTaskName c)(taskName := None)\<rparr>"

definition SetPollIntervalForTask ::
  "TaskRunner \<Rightarrow> string \<Rightarrow> Duration \<Rightarrow> string option \<times> TaskRunner" where
  "SetPollIntervalForTask c taskName pollInterval =
     (None, c\<lparr>pollIntervalByTaskName := (pollIntervalByTaskName c)(taskName \<mapsto> pollInterval)\<rparr>)"

definition SetPollTimeoutForTask ::
  "TaskRunner \<Rightarrow> string \<Rightarrow> Duration \<Rightarrow> string option \<times> TaskRunner" where
  "SetPollTimeoutForTask c taskName t =
     (None, c\<lparr>pollTimeoutByTaskName := (pollTimeoutByTaskName c)(taskName \<mapsto> t)\<rparr>)"

definition SetSleepOnGenericError :: "TaskRunner \<Rightarrow> Duration \<Rightarrow> TaskRunner" where
  "SetSleepOnGenericError c duration = c\<lparr>sleepForOnGenericError := duration\<rparr>"

definition increaseRunningWorkers :: "TaskRunner \<Rightarrow> string \<Rightarrow> TaskRunner" where
  "increaseRunningWorkers c taskName =
     c\<lparr>runningWorkersByTaskName :=
         (runningWorkersByTaskName c)(taskName \<mapsto> at0 (runningWorkersByTaskName c) taskName + 1),
       workerWaitGroup := workerWaitGroup c + 1\<rparr>"

definition runningWorkerDone :: "TaskRunner \<Rightarrow> string \<Rightarrow> TaskRunner" where
  "runningWorkerDone c taskName =
     c\<lparr>runningWorkersByTaskName :=
         (runningWorkersByTaskName c)(taskName \<mapsto> at0 (runningWorkersByTaskName c) taskName - 1),
       workerWaitGroup := workerWaitGroup c - 1\<rparr>"

definition increaseMaxAllowedWorkers ::
  "TaskRunner \<Rightarrow> string \<Rightarrow> goint \<Rightarrow> string option \<times> TaskRunner" where
  "increaseMaxAllowedWorkers c taskName batchSize =
     (None, c\<lparr>batchSizeByTaskName :=
              (batchSizeByTaskName c)(taskName \<mapsto> at0 (batchSizeByTaskName c) taskName + batchSize)\<rparr>)"

subsection \<open>Registration\<close>

definition getBaseContext :: "TaskRunner \<Rightarrow> string" where
  "getBaseContext c = (case baseCtx c of None \<Rightarrow> ''Background'' | Some ctx \<Rightarrow> ctx)"

text \<open>
  The end of \<open>startWorker\<close>: \<open>workerWaitGroup.Add(1)\<close> and
  \<open>go c.work4ever(taskName, executeFunction, taskDomain)\<close>. The new goroutine stands
  before its first loop test.
\<close>

definition go_work4ever ::
  "TaskRunner \<Rightarrow> string \<Rightarrow> ExecuteTaskFunction option \<Rightarrow> string \<Rightarrow> TaskRunner" where
  "go_work4ever c taskName executeFunction taskDomain =
     c\<lparr>workerWaitGroup := workerWaitGroup c + 1,
       pollLoops := pollLoops c @ [(taskName, executeFunction, taskDomain, AtRegistered)]\<rparr>"

text \<open>\<open>startWorker\<close>. The function never compares \<open>executeFunction\<close> with nil.\<close>

definition startWorker ::
  "TaskRunner \<Rightarrow> string \<Rightarrow> ExecuteTaskFunction option \<Rightarrow> goint \<Rightarrow> Duration \<Rightarrow> string
     \<Rightarrow> string option \<times> TaskRunner" where
  "startWorker c taskName executeFunction batchSize pollInterval taskDomain =
     (let c1 = snd (SetPollIntervalForTask c taskName pollInterval);
          c2 = Resume c1 taskName
      in case getMaxAllowedWorkers c2 taskName of
           Inl err \<Rightarrow> (Some err, c2)
         | Inr previousMaxAllowedWorkers \<Rightarrow>
             (case increaseMaxAllowedWorkers c2 taskName batchSize of
                (Some err, c3) \<Rightarrow> (Some err, c3)
              | (None, c3) \<Rightarrow>
                  (if sint previousMaxAllowedWorkers < 1
                   then (None, go_work4ever c3 taskName executeFunction taskDomain)
                   else (None, c3))))"

definition StartWorkerWithDomain ::
  "TaskRunner \<Rightarrow> string \<Rightarrow> ExecuteTaskFunction option \<Rightarrow> goint \<Rightarrow> Duration \<Rightarrow> string
     \<Rightarrow> string option \<times> TaskRunner" where
  "StartWorkerWithDomain c taskName executeFunction batchSize pollInterval domain =
     startWorker c taskName executeFunction batchSize pollInterval domain"

definition StartWorker ::
  "TaskRunner \<Rightarrow> string \<Rightarrow> ExecuteTaskFunction option \<Rightarrow> goint \<Rightarrow> Duration
     \<Rightarrow> string option \<times> TaskRunner" where
  "StartWorker c taskName executeFunction batchSize pollInterval =
     startWorker c taskName executeFunction batchSize pollInterval ''''"

text \<open>
  \<open>RegisterWorker\<close>; \<open>None\<close> is the nil interface value. \<open>withBaseContext\<close> is the
  worker after \<open>w.With(WithBaseContext(c.getBaseContext()))\<close>, where it is applied.
\<close>

definition withBaseContext :: "TaskRunner \<Rightarrow> Worker \<Rightarrow> Worker" where
  "withBaseContext c w1 =
     (if BaseContext (wOptions w1) = None
      then w1\<lparr>wOptions := (wOptions w1)\<lparr>BaseContext := Some (getBaseContext c)\<rparr>\<rparr>
      else w1)"

definition RegisterWorker :: "TaskRunner \<Rightarrow> Worker option \<Rightarrow> string option \<times> TaskRunner" where
  "RegisterWorker c w0 =
     (case w0 of
        None \<Rightarrow> (Some ''worker is nil'', c)
      | Some w1 \<Rightarrow>
          (let w = withBaseContext c w1;
               opts = wOptions w
           in case SetPollIntervalForTask c (wTaskName w) (PollInterval opts) of
                (Some err, c1) \<Rightarrow> (Some err, c1)
              | (None, c1) \<Rightarrow>
                  (case (if PollTimeout opts \<noteq> 0
                         then SetPollTimeoutForTask c1 (wTaskName w) (PollTimeout opts)
                         else (None, c1)) of
                     (Some err, c2) \<Rightarrow> (Some err, c2)
                   | (None, c2) \<Rightarrow>
                       startWorker c2 (wTaskName w) (wHandler w) (BatchSize opts)
                         (PollInterval opts) (DomainOpt opts))))"

subsection \<open>Polling\<close>

text \<open>Go's conversion \<open>int32(x)\<close> keeps the low 32 bits, read as two's complement.\<close>

definition int32 :: "int \<Rightarrow> int" where
  "int32 x = sint (word_of_int x :: 32 word)"

text \<open>\<open>Duration.Milliseconds\<close>: integer division, truncated towards zero.\<close>

definition Milliseconds :: "Duration \<Rightarrow> int" where
  "Milliseconds d = sgn d * (\<bar>d\<bar> div 1000000)"

definition pauseOnGenericError :: "TaskRunner \<Rightarrow> TaskRunner" where
  "pauseOnGenericError c = Sleep (sleepForOnGenericError c) c"

definition pauseOnNoAvailableWorkerError :: "TaskRunner \<Rightarrow> TaskRunner" where
  "pauseOnNoAvailableWorkerError c = Sleep sleepForOnNoAvailableWorker c"

text \<open>
  \<open>batchPoll\<close> after its read of the timeout: it builds the request, sends it (recorded
  in \<open>pollCalls\<close>) and reads the answer \<open>resp\<close> of the remote service.
\<close>

definition BatchPoll_remote ::
  "TaskRunner \<Rightarrow> string \<Rightarrow> goint \<Rightarrow> string \<Rightarrow> Duration \<Rightarrow> poll_response
     \<Rightarrow> Task list outcome \<times> TaskRunner" where
  "BatchPoll_remote c taskName count domain timeout resp =
     (let opts = \<lparr>reqTaskName = taskName,
                  reqCount = int32 (sint count),
                  reqDomain = (if domain \<noteq> '''' then Some domain else None),
                  reqTimeout = (if timeout \<ge> 0 then Some (int32 (Milliseconds timeout))
                                else None)\<rparr>;
          c1 = c\<lparr>pollCalls := pollCalls c @ [opts]\<rparr>
      in case resp of
           PollPanic p \<Rightarrow> (Panic p, c1)
         | PollError err \<Rightarrow> (Failure err, c1)
         | PollNoContent \<Rightarrow> (Value [], c1)
         | PollTasks tasks \<Rightarrow> (Value tasks, c1))"

definition batchPoll ::
  "TaskRunner \<Rightarrow> string \<Rightarrow> goint \<Rightarrow> string \<Rightarrow> poll_response \<Rightarrow> Task list outcome \<times> TaskRunner" where
  "batchPoll c taskName count domain resp =
     (case GetPollTimeoutForTask c taskName of
        Inl err \<Rightarrow> (Failure err, c)
      | Inr timeout \<Rightarrow> BatchPoll_remote c taskName count domain timeout resp)"

text \<open>
  One turn of the \<open>for _, task := range tasks\<close> loop of \<open>workOnce\<close>: the increment of the
  running count, then \<open>go c.executeAndUpdateTask(...)\<close>.
\<close>

definition dispatch1 ::
  "TaskRunner \<Rightarrow> string \<Rightarrow> ExecuteTaskFunction option \<Rightarrow> Task \<Rightarrow> TaskRunner" where
  "dispatch1 c taskName executeFunction task =
     (let c1 = increaseRunningWorkers c taskName
      in c1\<lparr>executions := executions c1 @ [(taskName, task, executeFunction)]\<rparr>)"

fun dispatch ::
  "TaskRunner \<Rightarrow> string \<Rightarrow> ExecuteTaskFunction option \<Rightarrow> Task list \<Rightarrow> TaskRunner" where
  "dispatch c taskName executeFunction [] = c"
| "dispatch c taskName executeFunction (task # tasks) =
     dispatch (dispatch1 c taskName executeFunction task) taskName executeFunction tasks"

text \<open>\<open>workOnce\<close> returns the panic leaving it, if any, and the runner.\<close>

definition workOnce ::
  "TaskRunner \<Rightarrow> string \<Rightarrow> ExecuteTaskFunction option \<Rightarrow> string \<Rightarrow> poll_response
     \<Rightarrow> string option \<times> TaskRunner" where
  "workOnce c taskName executeFunction domain resp =
     (if isPaused c taskName then (None, pauseOnGenericError c)
      else case getAvailableWorkerAmount c taskName of
        Inl err \<Rightarrow> (None, pauseOnGenericError c)
      | Inr batchSize \<Rightarrow>
          (if sint batchSize < 1 then (None, pauseOnNoAvailableWorkerError c)
           else case batchPoll c taskName batchSize domain resp of
             (Panic p, c1) \<Rightarrow> (Some p, c1)
           | (Failure err, c1) \<Rightarrow> (None, pauseOnGenericError c1)
           | (Value tasks, c1) \<Rightarrow>
               (if length tasks < 1
                then (case GetPollIntervalForTask c1 taskName of
                        Inl err \<Rightarrow> (None, pauseOnGenericError c1)
                      | Inr pollInterval \<Rightarrow> (None, Sleep pollInterval c1))
                else (None, dispatch c1 taskName executeFunction tasks))))"

subsection \<open>Panics\<close>

text \<open>
  Modelled from the spec: \<open>concurrency.HandlePanicError\<close>, which is not among the sources.
  It is deferred by \<open>work4ever\<close> and \<open>executeAndUpdateTask\<close> with a message and no
  other argument; the spec has a fault "intercepted ... rather than terminating the loop
  or the process". It takes the panic in flight, if any, and gives back the panic still in
  flight after it: none.
\<close>

definition HandlePanicError :: "string \<Rightarrow> string option \<Rightarrow> string option" where
  "HandlePanicError message panic = None"

text \<open>A goroutine whose function ends while panicking takes the process down.\<close>

definition goroutine_end :: "string option \<Rightarrow> TaskRunner \<Rightarrow> TaskRunner" where
  "goroutine_end panic c = (case panic of None \<Rightarrow> c | Some p \<Rightarrow> c\<lparr>crashed := True\<rparr>)"

text \<open>
  \<open>work4ever\<close>, one turn of its \<open>for\<close> loop: the test of \<open>isWorkerRegistered\<close> and, if it
  holds, \<open>workOnce\<close>. The result says whether the goroutine is still running. When the
  loop is left, by its test or by a panic, the two deferred calls run:
  \<open>HandlePanicError\<close>, then \<open>workerWaitGroup.Done\<close>.
\<close>

definition work4ever_return :: "string option \<Rightarrow> TaskRunner \<Rightarrow> TaskRunner" where
  "work4ever_return panic c =
     (let panic1 = HandlePanicError ''poll_and_execute'' panic;
          c1 = c\<lparr>workerWaitGroup := workerWaitGroup c - 1\<rparr>
      in goroutine_end panic1 c1)"

definition work4ever_iter ::
  "TaskRunner \<Rightarrow> string \<Rightarrow> ExecuteTaskFunction option \<Rightarrow> string \<Rightarrow> poll_response
     \<Rightarrow> bool \<times> TaskRunner" where
  "work4ever_iter c taskName executeFunction domain resp =
     (if isWorkerRegistered c taskName
      then (case workOnce c taskName executeFunction domain resp of
              (None, c1) \<Rightarrow> (True, c1)
            | (Some p, c1) \<Rightarrow> (False, work4ever_return (Some p) c1))
      else (False, work4ever_return None c))"

subsection \<open>Executing a task and reporting its result\<close>

text \<open>
  Modelled from the spec: \<open>model.NewTaskResultFromTaskWithError\<close>, which is not among the
  sources: "a FAILED TaskResult with that error's message", for the task it is given.
\<close>

definition NewTaskResultFromTaskWithError :: "Task \<Rightarrow> string \<Rightarrow> TaskResult" where
  "NewTaskResultFromTaskWithError t err =
     \<lparr>rTaskId = TaskId t,
      rWorkflowInstanceId = WorkflowInstanceId t,
      rStatus = FAILED,
      rOutputData = None,
      rReasonForIncompletion = err\<rparr>"

text \<open>
  \<open>executeTask\<close>. \<open>model.GetTaskResultFromTaskExecutionOutput\<close> is not among the sources
  either and is the parameter \<open>conv\<close>. A panic of the handler is caught nowhere in this
  function: it leaves it (\<open>Inl\<close>), and no \<open>TaskResult\<close> is built. Calling the nil
  function is such a panic.
\<close>

definition executeTask ::
  "(Task \<Rightarrow> payload option \<Rightarrow> string + TaskResult) \<Rightarrow> Task \<Rightarrow> ExecuteTaskFunction option
     \<Rightarrow> string + TaskResult" where
  "executeTask conv t executeFunction =
     (case executeFunction of
        None \<Rightarrow> Inl ''invalid memory address or nil pointer dereference''
      | Some f \<Rightarrow>
          (case f t of
             Panics p \<Rightarrow> Inl p
           | Returns taskExecutionOutput err \<Rightarrow>
               (case (err, taskExecutionOutput) of
                  (Some e, None) \<Rightarrow> Inr (NewTaskResultFromTaskWithError t e)
                | _ \<Rightarrow>
                    (case conv t taskExecutionOutput of
                       Inl e \<Rightarrow> Inr (NewTaskResultFromTaskWithError t e)
                     | Inr taskResult \<Rightarrow> Inr taskResult))))"

text \<open>
  \<open>updateTask\<close>: one call of the remote \<open>UpdateTask\<close>, recorded in \<open>updateCalls\<close>. The
  remote service is \<open>upd\<close>: its answer to the call made in the given attempt, \<open>None\<close>
  for success.
\<close>

definition updateTask ::
  "(nat \<Rightarrow> string option) \<Rightarrow> int \<Rightarrow> TaskResult \<Rightarrow> TaskRunner \<Rightarrow> string option \<times> TaskRunner" where
  "updateTask upd attempt taskResult c =
     (upd (nat attempt), c\<lparr>updateCalls := updateCalls c @ [taskResult]\<rparr>)"

text \<open>
  The \<open>for attempt := 0; attempt <= taskUpdateRetryAttemptsLimit; attempt += 1\<close> loop of
  \<open>updateTaskWithRetry\<close>, and the \<open>fmt.Errorf\<close> after it (\<open>%d\<close> prints the constant 3;
  \<open>%s\<close> of a nil error prints \<open>%!s(<nil>)\<close>).
\<close>

function updateTaskWithRetry_loop ::
  "(nat \<Rightarrow> string option) \<Rightarrow> string \<Rightarrow> TaskResult \<Rightarrow> int \<Rightarrow> string option \<Rightarrow> TaskRunner
     \<Rightarrow> string option \<times> TaskRunner" where
  "updateTaskWithRetry_loop upd taskName taskResult attempt lastError c =
     (if attempt \<le> taskUpdateRetryAttemptsLimit
      then (let c1 = (if attempt > 0 then Sleep (attempt * 10 * Second) c else c)
            in case updateTask upd attempt taskResult c1 of
                 (None, c2) \<Rightarrow> (None, c2)
               | (Some err, c2) \<Rightarrow>
                   updateTaskWithRetry_loop upd taskName taskResult (attempt + 1) (Some err) c2)
      else (Some (''failed to update task '' @ taskName @ '' after '' @ ''3'' @ '' attempts. '' @
                  (case lastError of None \<Rightarrow> ''%!s(<nil>)'' | Some e \<Rightarrow> e)), c))"
  by pat_completeness auto
termination
  by (relation "measure (\<lambda>(upd, taskName, taskResult, attempt, lastError, c).
        nat (taskUpdateRetryAttemptsLimit + 1 - attempt))") auto

declare updateTaskWithRetry_loop.simps [simp del]

definition updateTaskWithRetry ::
  "(nat \<Rightarrow> string option) \<Rightarrow> string \<Rightarrow> TaskResult \<Rightarrow> TaskRunner \<Rightarrow> string option \<times> TaskRunner" where
  "updateTaskWithRetry upd taskName taskResult c =
     updateTaskWithRetry_loop upd taskName taskResult 0 None c"

text \<open>
  \<open>executeAndUpdateTask\<close>. Its body stops at a panic of \<open>executeTask\<close>, so
  \<open>updateTaskWithRetry\<close> is reached only with a result. The two deferred calls then run
  in reverse order on every path: \<open>HandlePanicError\<close>, then \<open>runningWorkerDone\<close>.
\<close>

definition executeAndUpdateTask ::
  "(Task \<Rightarrow> payload option \<Rightarrow> string + TaskResult) \<Rightarrow> (nat \<Rightarrow> string option) \<Rightarrow> TaskRunner
     \<Rightarrow> string \<Rightarrow> Task \<Rightarrow> ExecuteTaskFunction option \<Rightarrow> TaskRunner" where
  "executeAndUpdateTask conv upd c taskName task executeFunction =
     (let (panic, c1) =
            (case executeTask conv task executeFunction of
               Inl p \<Rightarrow> (Some p, c)
             | Inr taskResult \<Rightarrow> (None, snd (updateTaskWithRetry upd taskName taskResult c)));
          panic1 = HandlePanicError (''execute_and_update_task '' @ TaskId task @ '': '' @ Status task) panic;
          c2 = runningWorkerDone c1 taskName
      in goroutine_end panic1 c2)"

section \<open>The goroutines of the runner, interleaved\<close>

subsection \<open>A poll loop, from one lock to the next\<close>

text \<open>
  What the goroutine of \<open>work4ever(taskName, executeFunction, domain)\<close> standing at
  \<open>pc\<close> does next, up to the point where it next waits for a lock or for the remote
  service: where it stands afterwards (\<open>None\<close> when \<open>work4ever\<close> has returned) and the
  runner. Between two such steps any other goroutine may run. A sleep touches nothing
  shared and is taken with the step before it. \<open>resp\<close> is the answer of the remote
  service, read by the step at \<open>AtBatchPoll\<close> only.
\<close>

definition loop_step ::
  "TaskRunner \<Rightarrow> string \<Rightarrow> ExecuteTaskFunction option \<Rightarrow> string \<Rightarrow> loop_pc \<Rightarrow> poll_response
     \<Rightarrow> loop_pc option \<times> TaskRunner" where
  "loop_step c taskName executeFunction domain pc resp =
     (case pc of
        AtRegistered \<Rightarrow>
          (if isWorkerRegistered c taskName then (Some AtPaused, c)
           else (None, work4ever_return None c))
      | AtPaused \<Rightarrow>
          (if isPaused c taskName then (Some AtRegistered, pauseOnGenericError c)
           else (Some AtAllowed, c))
      | AtAllowed \<Rightarrow>
          (case getMaxAllowedWorkers c taskName of
             Inl err \<Rightarrow> (Some AtRegistered, pauseOnGenericError c)
           | Inr allowed \<Rightarrow> (Some (AtRunning allowed), c))
      | AtRunning allowed \<Rightarrow>
          (case getRunningWorkers c taskName of
             Inl err \<Rightarrow> (Some AtRegistered, pauseOnGenericError c)
           | Inr running \<Rightarrow>
               (let batchSize = allowed - running
                in if sint batchSize < 1 then (Some AtRegistered, pauseOnNoAvailableWorkerError c)
                   else (Some (AtTimeout batchSize), c)))
      | AtTimeout count \<Rightarrow>
          (case GetPollTimeoutForTask c taskName of
             Inl err \<Rightarrow> (Some AtRegistered, pauseOnGenericError c)
           | Inr timeout \<Rightarrow> (Some (AtBatchPoll count timeout), c))
      | AtBatchPoll count timeout \<Rightarrow>
          (case BatchPoll_remote c taskName count domain timeout resp of
             (Panic p, c1) \<Rightarrow> (None, work4ever_return (Some p) c1)
           | (Failure err, c1) \<Rightarrow> (Some AtRegistered, pauseOnGenericError c1)
           | (Value tasks, c1) \<Rightarrow>
               (if length tasks < 1 then (Some AtInterval, c1)
                else (Some (AtDispatch tasks), c1)))
      | AtInterval \<Rightarrow>
          (case GetPollIntervalForTask c taskName of
             Inl err \<Rightarrow> (Some AtRegistered, pauseOnGenericError c)
           | Inr pollInterval \<Rightarrow> (Some AtRegistered, Sleep pollInterval c))
      | AtDispatch tasks \<Rightarrow>
          (case tasks of
             [] \<Rightarrow> (Some AtRegistered, c)
           | task # rest \<Rightarrow>
               (Some (if rest = [] then AtRegistered else AtDispatch rest),
                dispatch1 c taskName executeFunction task)))"

subsection \<open>A call of an exported method, from one lock to the next\<close>

text \<open>
  What the caller standing at \<open>k\<close> does next, through one critical section: where it
  stands afterwards (\<open>None\<close> when the method has returned) and the runner. The value a
  method returns is that of the function given for it above.
\<close>

fun call_step :: "TaskRunner \<Rightarrow> call \<Rightarrow> call option \<times> TaskRunner" where
  "call_step c (SetBatchSize_check taskName batchSize) =
     (if sint batchSize < 0 then (None, c)
      else if \<not> isWorkerRegistered c taskName then (None, c)
      else (Some (SetBatchSize_write taskName batchSize), c))"
| "call_step c (SetBatchSize_write taskName batchSize) =
     (None, SetBatchSize_locked c taskName batchSize)"
| "call_step c (IncreaseBatchSize_check taskName batchSize) =
     (if sint batchSize < 1 then (None, c)
      else if \<not> isWorkerRegistered c taskName then (None, c)
      else (Some (IncreaseBatchSize_write taskName batchSize), c))"
| "call_step c (IncreaseBatchSize_write taskName batchSize) =
     (None, IncreaseBatchSize_locked c taskName batchSize)"
| "call_step c (DecreaseBatchSize_check taskName batchSize) =
     (if sint batchSize < 1 then (None, c)
      else if \<not> isWorkerRegistered c taskName then (None, c)
      else (Some (DecreaseBatchSize_write taskName batchSize), c))"
| "call_step c (DecreaseBatchSize_write taskName batchSize) =
     (None, DecreaseBatchSize_locked c taskName batchSize)"
| "call_step c (Pause_call taskName) = (None, Pause c taskName)"
| "call_step c (Resume_call taskName) = (None, Resume c taskName)"
| "call_step c (Shutdown_batchSize taskName) =
     (Some (Shutdown_paused taskName),
      c\<lparr>batchSizeByTaskName := (batchSizeByTaskName c)(taskName := None)\<rparr>)"
| "call_step c (Shutdown_paused taskName) =
     (Some (Shutdown_pollInterval taskName),
      c\<lparr>pausedWorkers := (pausedWorkers c)(taskName := None)\<rparr>)"
| "call_step c (Shutdown_pollInterval taskName) =
     (Some (Shutdown_pollTimeout taskName),
      c\<lparr>pollIntervalByTaskName := (pollIntervalByTaskName c)(taskName := None)\<rparr>)"
| "call_step c (Shutdown_pollTimeout taskName) =
     (None, c\<lparr>pollTimeoutByTaskName := (pollTimeoutByTaskName c)(taskName := None)\<rparr>)"
| "call_step c (startWorker_pollInterval taskName executeFunction batchSize pollInterval taskDomain) =
     (Some (startWorker_resume taskName executeFunction batchSize taskDomain),
      snd (SetPollIntervalForTask c taskName pollInterval))"
| "call_step c (startWorker_resume taskName executeFunction batchSize taskDomain) =
     (Some (startWorker_previous taskName executeFunction batchSize taskDomain),
      Resume c taskName)"
| "call_step c (startWorker_previous taskName executeFunction batchSize taskDomain) =
     (case getMaxAllowedWorkers c taskName of
        Inl err \<Rightarrow> (None, c)
      | Inr previousMaxAllowedWorkers \<Rightarrow>
          (Some (startWorker_increase taskName executeFunction batchSize taskDomain
                   previousMaxAllowedWorkers), c))"
| "call_step c (startWorker_increase taskName executeFunction batchSize taskDomain
                  previousMaxAllowedWorkers) =
     (case increaseMaxAllowedWorkers c taskName batchSize of
        (Some err, c3) \<Rightarrow> (None, c3)
      | (None, c3) \<Rightarrow>
          (if sint previousMaxAllowedWorkers < 1
           then (Some (startWorker_go taskName executeFunction taskDomain), c3)
           else (None, c3)))"
| "call_step c (startWorker_go taskName executeFunction taskDomain) =
     (None, go_work4ever c taskName executeFunction taskDomain)"
| "call_step c (RegisterWorker_pollInterval w0) =
     (case w0 of
        None \<Rightarrow> (None, c)
      | Some w1 \<Rightarrow>
          (let w = withBaseContext c w1;
               opts = wOptions w
           in case SetPollIntervalForTask c (wTaskName w) (PollInterval opts) of
                (Some err, c1) \<Rightarrow> (None, c1)
              | (None, c1) \<Rightarrow>
                  (if PollTimeout opts \<noteq> 0 then (Some (RegisterWorker_pollTimeout w), c1)
                   else (Some (startWorker_pollInterval (wTaskName w) (wHandler w) (BatchSize opts)
                                 (PollInterval opts) (DomainOpt opts)), c1))))"
| "call_step c (RegisterWorker_pollTimeout w) =
     (case SetPollTimeoutForTask c (wTaskName w) (PollTimeout (wOptions w)) of
        (Some err, c2) \<Rightarrow> (None, c2)
      | (None, c2) \<Rightarrow>
          (Some (startWorker_pollInterval (wTaskName w) (wHandler w) (BatchSize (wOptions w))
                   (PollInterval (wOptions w)) (DomainOpt (wOptions w))), c2))"

text \<open>The exported methods, and where a call of each starts.\<close>

datatype api =
    ApiStartWorker string "ExecuteTaskFunction option" goint Duration
  | ApiStartWorkerWithDomain string "ExecuteTaskFunction option" goint Duration string
  | ApiRegisterWorker "Worker option"
  | ApiSetBatchSize string goint
  | ApiIncreaseBatchSize string goint
  | ApiDecreaseBatchSize string goint
  | ApiPause string
  | ApiResume string
  | ApiShutdown string

fun entry :: "api \<Rightarrow> call" where
  "entry (ApiStartWorker taskName f batchSize pollInterval) =
     startWorker_pollInterval taskName f batchSize pollInterval ''''"
| "entry (ApiStartWorkerWithDomain taskName f batchSize pollInterval domain) =
     startWorker_pollInterval taskName f batchSize pollInterval domain"
| "entry (ApiRegisterWorker w) = RegisterWorker_pollInterval w"
| "entry (ApiSetBatchSize taskName batchSize) = SetBatchSize_check taskName batchSize"
| "entry (ApiIncreaseBatchSize taskName batchSize) = IncreaseBatchSize_check taskName batchSize"
| "entry (ApiDecreaseBatchSize taskName batchSize) = DecreaseBatchSize_check taskName batchSize"
| "entry (ApiPause taskName) = Pause_call taskName"
| "entry (ApiResume taskName) = Resume_call taskName"
| "entry (ApiShutdown taskName) = Shutdown_batchSize taskName"

subsection \<open>Steps with nothing in between\<close>

text \<open>
  A call going through its critical sections, at most \<open>n\<close> of them, and a poll loop
  going through its steps, at most \<open>n\<close> of them and up to the end of its turn, while no
  other goroutine runs. No method has more than seven sections.
\<close>

fun sections :: "nat \<Rightarrow> TaskRunner \<Rightarrow> call \<Rightarrow> TaskRunner" where
  "sections 0 c k = c"
| "sections (Suc n) c k =
     (case call_step c k of
        (None, c1) \<Rightarrow> c1
      | (Some k1, c1) \<Rightarrow> sections n c1 k1)"

definition uninterrupted :: "TaskRunner \<Rightarrow> api \<Rightarrow> TaskRunner" where
  "uninterrupted c a = sections (Suc (Suc (Suc (Suc (Suc (Suc (Suc 0))))))) c (entry a)"

fun turn ::
  "nat \<Rightarrow> TaskRunner \<Rightarrow> string \<Rightarrow> ExecuteTaskFunction option \<Rightarrow> string \<Rightarrow> loop_pc \<Rightarrow> poll_response
     \<Rightarrow> loop_pc option \<times> TaskRunner" where
  "turn 0 c taskName f domain pc resp = (Some pc, c)"
| "turn (Suc n) c taskName f domain pc resp =
     (case loop_step c taskName f domain pc resp of
        (None, c1) \<Rightarrow> (None, c1)
      | (Some pc1, c1) \<Rightarrow>
          (if pc1 = AtRegistered then (Some AtRegistered, c1)
           else turn n c1 taskName f domain pc1 resp))"

fun answered :: "poll_response \<Rightarrow> nat" where
  "answered (PollTasks tasks) = length tasks"
| "answered resp = 0"

subsection \<open>Goroutines taking turns\<close>

text \<open>
  What can happen next to a runner: some goroutine calls an exported method; the \<open>i\<close>-th
  call under way goes through its next critical section; the \<open>i\<close>-th live \<open>work4ever\<close>
  goroutine takes its next step (with the answer of the remote service, should it poll);
  the \<open>i\<close>-th spawned \<open>executeAndUpdateTask\<close> goroutine runs (with the answers of the
  remote service to its updates). An execution is taken whole: its handler, its updates and
  its sleeps touch nothing that another goroutine of the runner reads, and the one
  critical section it has, in \<open>runningWorkerDone\<close>, is its last step.
\<close>

datatype event =
    EvBegin api
  | EvCall nat
  | EvLoop nat poll_response
  | EvExec nat "nat \<Rightarrow> string option"

definition drop_nth :: "nat \<Rightarrow> 'a list \<Rightarrow> 'a list" where
  "drop_nth i xs = take i xs @ drop (Suc i) xs"

definition step_call :: "TaskRunner \<Rightarrow> nat \<Rightarrow> TaskRunner" where
  "step_call c i =
     (if i < length (calls c)
      then (case call_step c (calls c ! i) of
              (Some k, c1) \<Rightarrow> c1\<lparr>calls := (calls c1)[i := k]\<rparr>
            | (None, c1) \<Rightarrow> c1\<lparr>calls := drop_nth i (calls c1)\<rparr>)
      else c)"

definition step_loop :: "TaskRunner \<Rightarrow> nat \<Rightarrow> poll_response \<Rightarrow> TaskRunner" where
  "step_loop c i resp =
     (if i < length (pollLoops c)
      then (case pollLoops c ! i of
              (taskName, executeFunction, domain, pc) \<Rightarrow>
                (case loop_step c taskName executeFunction domain pc resp of
                   (Some pc1, c1) \<Rightarrow>
                     c1\<lparr>pollLoops := (pollLoops c1)[i := (taskName, executeFunction, domain, pc1)]\<rparr>
                 | (None, c1) \<Rightarrow> c1\<lparr>pollLoops := drop_nth i (pollLoops c1)\<rparr>))
      else c)"

definition step_exec ::
  "(Task \<Rightarrow> payload option \<Rightarrow> string + TaskResult) \<Rightarrow> TaskRunner \<Rightarrow> nat \<Rightarrow> (nat \<Rightarrow> string option)
     \<Rightarrow> TaskRunner" where
  "step_exec conv c i upd =
     (if i < length (executions c)
      then (case executions c ! i of
              (taskName, task, executeFunction) \<Rightarrow>
                executeAndUpdateTask conv upd (c\<lparr>executions := drop_nth i (executions c)\<rparr>)
                  taskName task executeFunction)
      else c)"

fun step :: "(Task \<Rightarrow> payload option \<Rightarrow> string + TaskResult) \<Rightarrow> TaskRunner \<Rightarrow> event \<Rightarrow> TaskRunner" where
  "step conv c (EvBegin a) = c\<lparr>calls := calls c @ [entry a]\<rparr>"
| "step conv c (EvCall i) = step_call c i"
| "step conv c (EvLoop i resp) = step_loop c i resp"
| "step conv c (EvExec i upd) = step_exec conv c i upd"

fun run :: "(Task \<Rightarrow> payload option \<Rightarrow> string + TaskResult) \<Rightarrow> TaskRunner \<Rightarrow> event list \<Rightarrow> TaskRunner" where
  "run conv c [] = c"
| "run conv c (e # es) = run conv (step conv c e) es"

text \<open>
  The calls that register a task name: those of \<open>StartWorker\<close>, \<open>StartWorkerWithDomain\<close>
  and \<open>RegisterWorker\<close> for the name.
\<close>

fun registers :: "string \<Rightarrow> event \<Rightarrow> bool" where
  "registers taskName (EvBegin (ApiStartWorker n f batchSize pollInterval)) = (n = taskName)"
| "registers taskName (EvBegin (ApiStartWorkerWithDomain n f batchSize pollInterval domain)) =
     (n = taskName)"
| "registers taskName (EvBegin (ApiRegisterWorker w)) =
     (case w of None \<Rightarrow> False | Some w1 \<Rightarrow> wTaskName w1 = taskName)"
| "registers taskName e = False"

text \<open>
  The calls under way that will still write the batch size of a name or start a poll
  loop for it: a registration of the name past its entry, or a \<open>SetBatchSize\<close>,
  \<open>IncreaseBatchSize\<close> or \<open>DecreaseBatchSize\<close> past its registration check.
\<close>

fun writes :: "string \<Rightarrow> call \<Rightarrow> bool" where
  "writes taskName (SetBatchSize_write n batchSize) = (n = taskName)"
| "writes taskName (IncreaseBatchSize_write n batchSize) = (n = taskName)"
| "writes taskName (DecreaseBatchSize_write n batchSize) = (n = taskName)"
| "writes taskName (startWorker_pollInterval n f batchSize pollInterval domain) = (n = taskName)"
| "writes taskName (startWorker_resume n f batchSize domain) = (n = taskName)"
| "writes taskName (startWorker_previous n f batchSize domain) = (n = taskName)"
| "writes taskName (startWorker_increase n f batchSize domain previous) = (n = taskName)"
| "writes taskName (startWorker_go n f domain) = (n = taskName)"
| "writes taskName (RegisterWorker_pollInterval w) =
     (case w of None \<Rightarrow> False | Some w1 \<Rightarrow> wTaskName w1 = taskName)"
| "writes taskName (RegisterWorker_pollTimeout w) = (wTaskName w = taskName)"
| "writes taskName k = False"

text \<open>
  Observations: the polls sent for a name; its live poll loops; those of them that are in
  a turn and have not yet sent the poll of that turn.
\<close>

definition pollsFor :: "TaskRunner \<Rightarrow> string \<Rightarrow> poll_request list" where
  "pollsFor c taskName = filter (\<lambda>r. reqTaskName r = taskName) (pollCalls c)"

definition loopsFor :: "TaskRunner \<Rightarrow> string \<Rightarrow> nat" where
  "loopsFor c taskName = length (filter (\<lambda>l. fst l = taskName) (pollLoops c))"

fun before_poll :: "loop_pc \<Rightarrow> bool" where
  "before_poll AtPaused = True"
| "before_poll AtAllowed = True"
| "before_poll (AtRunning allowed) = True"
| "before_poll (AtTimeout count) = True"
| "before_poll (AtBatchPoll count timeout) = True"
| "before_poll pc = False"

definition inTurnFor :: "TaskRunner \<Rightarrow> string \<Rightarrow> nat" where
  "inTurnFor c taskName =
     length (filter (\<lambda>l. fst l = taskName \<and> before_poll (snd (snd (snd l)))) (pollLoops c))"

text \<open>
  A poll loop past its capacity check holds a count of at least 1: the difference it
  computed from the capacity and the running count it read.
\<close>

fun checked :: "loop_pc \<Rightarrow> bool" where
  "checked (AtTimeout count) = (1 \<le> sint count)"
| "checked (AtBatchPoll count timeout) = (1 \<le> sint count)"
| "checked pc = True"

definition all_checked :: "TaskRunner \<Rightarrow> bool" where
  "all_checked c = list_all (\<lambda>l. checked (snd (snd (snd l)))) (pollLoops c)"

section \<open>Sample inputs\<close>

definition echo_task :: Task where
  "echo_task = \<lparr>TaskId = ''t1'', TaskDefName = ''echo'', WorkflowInstanceId = ''w1'',
                 Status = ''SCHEDULED'', InputData = ''hello''\<rparr>"

definition echo_task2 :: Task where
  "echo_task2 = \<lparr>TaskId = ''t2'', TaskDefName = ''echo'', WorkflowInstanceId = ''w1'',
                  Status = ''SCHEDULED'', InputData = ''world''\<rparr>"

definition echo_handler :: ExecuteTaskFunction where
  "echo_handler t = Returns (Some (InputData t)) None"

definition panicking_handler :: ExecuteTaskFunction where
  "panicking_handler t = Panics ''index out of range''"

definition completed_result :: "Task \<Rightarrow> payload option \<Rightarrow> string + TaskResult" where
  "completed_result t out =
     Inr \<lparr>rTaskId = TaskId t, rWorkflowInstanceId = WorkflowInstanceId t, rStatus = COMPLETED,
          rOutputData = out, rReasonForIncompletion = ''''\<rparr>"

definition echo_result :: TaskResult where
  "echo_result = \<lparr>rTaskId = ''t1'', rWorkflowInstanceId = ''w1'', rStatus = COMPLETED,
                   rOutputData = Some ''hello'', rReasonForIncompletion = ''''\<rparr>"

text \<open>A remote service whose first \<open>n\<close> answers to an update are errors.\<close>

definition failing_until :: "nat \<Rightarrow> nat \<Rightarrow> string option" where
  "failing_until n k = (if k < n then Some ''unavailable'' else None)"

text \<open>A runner on which \<open>echo\<close> has been started with batch size 2.\<close>

definition echo_runner :: TaskRunner where
  "echo_runner = snd (StartWorker NewTaskRunner ''echo'' (Some echo_handler) 2 (100 * Millisecond))"

definition echo_worker :: Worker where
  "echo_worker =
     \<lparr>wTaskName = ''echo'', wHandler = Some echo_handler,
      wOptions = \<lparr>DomainOpt = '''', BatchSize = 1, PollInterval = 100 * Millisecond,
                   PollTimeout = - 1 * Millisecond, BaseContext = None\<rparr>\<rparr>"

text \<open>
  Pieces of a schedule. A call of \<open>StartWorker\<close> for \<open>echo\<close> going through its five
  sections with nothing in between; the first and only call under way going through two
  sections; the first poll loop going from its loop test to its capacity check (four
  steps), and from there through the remote poll (two steps).
\<close>

definition start_echo :: "ExecuteTaskFunction option \<Rightarrow> goint \<Rightarrow> event list" where
  "start_echo f batchSize =
     [EvBegin (ApiStartWorker ''echo'' f batchSize (100 * Millisecond)),
      EvCall 0, EvCall 0, EvCall 0, EvCall 0, EvCall 0]"

definition check_and_write :: "api \<Rightarrow> event list" where
  "check_and_write a = [EvBegin a, EvCall 0, EvCall 0]"

definition to_capacity_check :: "event list" where
  "to_capacity_check =
     [EvLoop 0 PollNoContent, EvLoop 0 PollNoContent, EvLoop 0 PollNoContent, EvLoop 0 PollNoContent]"

definition through_poll :: "poll_response \<Rightarrow> event list" where
  "through_poll resp = [EvLoop 0 resp, EvLoop 0 resp]"

text \<open>
  \<open>echo\<close> started with a handler that panics; one task fetched and dispatched; its
  execution run.
\<close>

definition panic_events :: "event list" where
  "panic_events =
     start_echo (Some panicking_handler) 2 @ to_capacity_check @
     through_poll (PollTasks [echo_task]) @
     [EvLoop 0 PollNoContent, EvExec 0 (failing_until 0)]"

text \<open>\<open>echo\<close> started with batch size 2, two tasks fetched and dispatched.\<close>

definition busy_runner :: TaskRunner where
  "busy_runner =
     run completed_result NewTaskRunner
       (start_echo (Some echo_handler) 2 @ to_capacity_check @
        through_poll (PollTasks [echo_task, echo_task2]) @
        [EvLoop 0 PollNoContent, EvLoop 0 PollNoContent])"


text \<open>\<open>echo\<close> started, its batch size set to 0, and \<open>echo\<close> started again.\<close>

definition restart_events :: "event list" where
  "restart_events =
     start_echo (Some echo_handler) 1 @ check_and_write (ApiSetBatchSize ''echo'' 0) @
     start_echo (Some echo_handler) 1"

text \<open>
  Two tasks in flight for \<open>echo\<close> at batch size 2, the batch size increased by the
  largest int, and the poll loop gone from its loop test to its capacity check.
\<close>

definition wrapped_events :: "event list" where
  "wrapped_events =
     check_and_write (ApiIncreaseBatchSize ''echo'' MaxInt64) @ to_capacity_check"

text \<open>
  The poll loop of \<open>echo\<close> past its capacity check; then a whole \<open>Shutdown\<close> of \<open>echo\<close>;
  then the loop going on.
\<close>

definition decided_runner :: TaskRunner where
  "decided_runner =
     run completed_result NewTaskRunner (start_echo (Some echo_handler) 2 @ to_capacity_check)"

definition shutdown_events :: "event list" where
  "shutdown_events = [EvBegin (ApiShutdown ''echo''), EvCall 0, EvCall 0, EvCall 0, EvCall 0]"

text \<open>
  After a shutdown: pause, resume, an execution in flight running to its end, and the
  poll loop at its next loop test.
\<close>

definition after_shutdown_events :: "event list" where
  "after_shutdown_events =
     [EvBegin (ApiPause ''echo''), EvCall 0, EvBegin (ApiResume ''echo''), EvCall 0,
      EvExec 0 (failing_until 0)]"

section \<open>Evaluating a schedule\<close>

lemmas eval_defs =
  step_loop_def step_call_def step_exec_def loop_step_def
  work4ever_iter_def work4ever_return_def workOnce_def
  startWorker_def StartWorker_def StartWorkerWithDomain_def go_work4ever_def
  SetPollIntervalForTask_def SetPollTimeoutForTask_def Resume_def Pause_def
  getMaxAllowedWorkers_def increaseMaxAllowedWorkers_def NewTaskRunner_def at0_def Let_def
  isWorkerRegistered_def isPaused_def getAvailableWorkerAmount_def getRunningWorkers_def
  batchPoll_def BatchPoll_remote_def GetPollTimeoutForTask_def GetPollIntervalForTask_def
  increaseRunningWorkers_def dispatch1_def
  drop_nth_def HandlePanicError_def goroutine_end_def runningWorkerDone_def
  SetBatchSize_def IncreaseBatchSize_def DecreaseBatchSize_def
  SetBatchSize_locked_def IncreaseBatchSize_locked_def DecreaseBatchSize_locked_def
  pauseOnGenericError_def pauseOnNoAvailableWorkerError_def Sleep_def
  Millisecond_def loopsFor_def pollsFor_def
  start_echo_def check_and_write_def to_capacity_check_def through_poll_def

lemma int32_small: "int32 1 = 1" "int32 2 = 2"
  by (simp_all add: int32_def)

section \<open>Arithmetic on Go's int\<close>

lemma int32_le_self: "1 \<le> x \<Longrightarrow> int32 x \<le> x"
  unfolding int32_def
  by (simp add: sint_sbintrunc' signed_take_bit_int_less_eq_self_iff)

lemma sint_diff_exact:
  fixes a b :: goint
  shows "- (2 ^ 63) \<le> sint a - sint b \<Longrightarrow> sint a - sint b < 2 ^ 63 \<Longrightarrow>
    sint (a - b) = sint a - sint b"
  by (simp add: sint_word_diff signed_take_bit_int_eq_self)




section \<open>What a turn of a poll loop changes\<close>

lemma available_eq:
  "getAvailableWorkerAmount c taskName =
     Inr (at0 (batchSizeByTaskName c) taskName - at0 (runningWorkersByTaskName c) taskName)"
  by (simp add: getAvailableWorkerAmount_def getMaxAllowedWorkers_def getRunningWorkers_def
      at0_def split: option.splits)

lemma dispatch_executions:
  "executions (dispatch c taskName f tasks) =
     executions c @ map (\<lambda>task. (taskName, task, f)) tasks"
  by (induction tasks arbitrary: c) (auto simp: dispatch1_def increaseRunningWorkers_def Let_def)


lemma dispatch_frame:
  "batchSizeByTaskName (dispatch c taskName f tasks) = batchSizeByTaskName c \<and>
   pollLoops (dispatch c taskName f tasks) = pollLoops c \<and>
   calls (dispatch c taskName f tasks) = calls c"
  by (induction tasks arbitrary: c) (auto simp: dispatch1_def increaseRunningWorkers_def Let_def)



section \<open>Configuration errors\<close>

text \<open>
  C7. For a task name with no configuration, \<open>SetBatchSize\<close>, \<open>IncreaseBatchSize\<close> and
  \<open>DecreaseBatchSize\<close> return an error and leave the runner as it was; so do
  \<open>IncreaseBatchSize\<close> and \<open>DecreaseBatchSize\<close> with a delta below 1, and
  \<open>SetBatchSize\<close> with a negative value, for every name.
\<close>

theorem batch_size_errors_leave_state:
  "(\<not> isWorkerRegistered c taskName \<longrightarrow>
      fst (SetBatchSize c taskName b) \<noteq> None \<and> snd (SetBatchSize c taskName b) = c \<and>
      fst (IncreaseBatchSize c taskName b) \<noteq> None \<and> snd (IncreaseBatchSize c taskName b) = c \<and>
      fst (DecreaseBatchSize c taskName b) \<noteq> None \<and> snd (DecreaseBatchSize c taskName b) = c) \<and>
   (sint d < 1 \<longrightarrow>
      fst (IncreaseBatchSize c taskName d) \<noteq> None \<and> snd (IncreaseBatchSize c taskName d) = c \<and>
      fst (DecreaseBatchSize c taskName d) \<noteq> None \<and> snd (DecreaseBatchSize c taskName d) = c) \<and>
   (sint e < 0 \<longrightarrow>
      fst (SetBatchSize c taskName e) \<noteq> None \<and> snd (SetBatchSize c taskName e) = c)"
  by (simp add: SetBatchSize_def IncreaseBatchSize_def DecreaseBatchSize_def)

theorem batch_size_errors_leave_state_witness:
  "\<not> isWorkerRegistered NewTaskRunner ''echo'' \<and> sint (0::goint) < 1 \<and> sint (- 1::goint) < 0 \<and>
   SetBatchSize NewTaskRunner ''echo'' 5 =
     (Some ''no worker registered for taskName: echo'', NewTaskRunner) \<and>
   IncreaseBatchSize NewTaskRunner ''echo'' 5 =
     (Some ''no worker registered for taskName: echo'', NewTaskRunner) \<and>
   DecreaseBatchSize NewTaskRunner ''echo'' 5 =
     (Some ''no worker registered for taskName: echo'', NewTaskRunner) \<and>
   fst (IncreaseBatchSize NewTaskRunner ''echo'' 0) \<noteq> None \<and>
   snd (DecreaseBatchSize NewTaskRunner ''echo'' 0) = NewTaskRunner \<and>
   fst (SetBatchSize NewTaskRunner ''echo'' (- 1)) \<noteq> None \<and>
   snd (SetBatchSize NewTaskRunner ''echo'' (- 1)) = NewTaskRunner"
  using batch_size_errors_leave_state [of NewTaskRunner "''echo''" 5 0 "- 1"]
  by (simp add: SetBatchSize_def IncreaseBatchSize_def DecreaseBatchSize_def
      isWorkerRegistered_def NewTaskRunner_def)

section \<open>Reporting a result with retries\<close>

lemma loop_success:
  "attempt \<le> 3 \<Longrightarrow> upd (nat attempt) = None \<Longrightarrow>
   updateTaskWithRetry_loop upd taskName r attempt lastError c =
     (None, (if attempt > 0 then Sleep (attempt * 10 * Second) c else c)
              \<lparr>updateCalls := updateCalls (if attempt > 0 then Sleep (attempt * 10 * Second) c else c) @ [r]\<rparr>)"
  by (subst updateTaskWithRetry_loop.simps)
     (simp add: taskUpdateRetryAttemptsLimit_def updateTask_def Let_def)



lemma retry_first:
  "upd 0 = None \<Longrightarrow>
   updateTaskWithRetry upd taskName r c = (None, c\<lparr>updateCalls := updateCalls c @ [r]\<rparr>)"
  by (simp add: updateTaskWithRetry_def loop_success)








section \<open>Executions: release of capacity, and panics\<close>

lemma retry_loop_frame:
  "\<exists>u sl. snd (updateTaskWithRetry_loop upd taskName r attempt lastError c) =
     c\<lparr>updateCalls := u, slept := sl\<rparr>"
proof (induction upd taskName r attempt lastError c rule: updateTaskWithRetry_loop.induct)
  case (1 upd taskName r attempt lastError c)
  note unroll = updateTaskWithRetry_loop.simps [of upd taskName r attempt lastError c]
  show ?case
  proof (cases "attempt \<le> taskUpdateRetryAttemptsLimit")
    case False
    then have "snd (updateTaskWithRetry_loop upd taskName r attempt lastError c) = c"
      by (simp add: unroll)
    then show ?thesis
      by (intro exI [of _ "updateCalls c"] exI [of _ "slept c"]) simp
  next
    case True
    let ?c1 = "if attempt > 0 then Sleep (attempt * 10 * Second) c else c"
    let ?c2 = "?c1\<lparr>updateCalls := updateCalls ?c1 @ [r]\<rparr>"
    have c2: "?c2 = c\<lparr>updateCalls := updateCalls c @ [r],
                        slept := (if attempt > 0 then slept c @ [attempt * 10 * Second] else slept c)\<rparr>"
      by (simp add: Sleep_def)
    show ?thesis
    proof (cases "upd (nat attempt)")
      case None
      with True have "snd (updateTaskWithRetry_loop upd taskName r attempt lastError c) = ?c2"
        by (simp add: unroll updateTask_def Let_def)
      with c2 show ?thesis
        by (intro exI [of _ "updateCalls c @ [r]"]
              exI [of _ "if attempt > 0 then slept c @ [attempt * 10 * Second] else slept c"]) simp
    next
      case (Some err)
      from "1.IH" [OF True refl, of "Some err" ?c2 err]
      obtain u sl where "snd (updateTaskWithRetry_loop upd taskName r (attempt + 1) (Some err) ?c2) =
          ?c2\<lparr>updateCalls := u, slept := sl\<rparr>"
        using Some by (auto simp: updateTask_def)
      then have "snd (updateTaskWithRetry_loop upd taskName r attempt lastError c) =
          c\<lparr>updateCalls := u, slept := sl\<rparr>"
        using True Some
        by (simp add: unroll updateTask_def Let_def Sleep_def)
      then show ?thesis by blast
    qed
  qed
qed

lemma updateTaskWithRetry_frame:
  "\<exists>u sl. snd (updateTaskWithRetry upd taskName r c) = c\<lparr>updateCalls := u, slept := sl\<rparr>"
  unfolding updateTaskWithRetry_def by (rule retry_loop_frame)

lemma executeAndUpdateTask_frame:
  "\<exists>u sl. executeAndUpdateTask conv upd c taskName task f =
     (runningWorkerDone c taskName)\<lparr>updateCalls := u, slept := sl\<rparr>"
proof (cases "executeTask conv task f")
  case (Inl p)
  then have "executeAndUpdateTask conv upd c taskName task f = runningWorkerDone c taskName"
    by (simp add: executeAndUpdateTask_def HandlePanicError_def goroutine_end_def)
  then show ?thesis
    by (intro exI [of _ "updateCalls c"] exI [of _ "slept c"]) (simp add: runningWorkerDone_def)
next
  case (Inr taskResult)
  obtain u sl where "snd (updateTaskWithRetry upd taskName taskResult c) = c\<lparr>updateCalls := u, slept := sl\<rparr>"
    using updateTaskWithRetry_frame by blast
  with Inr have "executeAndUpdateTask conv upd c taskName task f =
      (runningWorkerDone c taskName)\<lparr>updateCalls := u, slept := sl\<rparr>"
    by (simp add: executeAndUpdateTask_def HandlePanicError_def goroutine_end_def runningWorkerDone_def)
  then show ?thesis by blast
qed

text \<open>
  C5. Every dispatched execution takes one off the running count of its task type when it
  ends, whatever the handler did (returned a value, returned an error, panicked, was nil)
  and whatever became of the delivery of the result: the count, and the wait group, are
  one below their value before, so an increment followed by the execution leaves the
  count where it was.
\<close>

theorem executeAndUpdateTask_releases_once:
  "runningWorkersByTaskName (executeAndUpdateTask conv upd c taskName task f) =
     (runningWorkersByTaskName c)(taskName \<mapsto> at0 (runningWorkersByTaskName c) taskName - 1) \<and>
   workerWaitGroup (executeAndUpdateTask conv upd c taskName task f) = workerWaitGroup c - 1 \<and>
   at0 (runningWorkersByTaskName
          (executeAndUpdateTask conv upd (increaseRunningWorkers c taskName) taskName task f)) taskName =
     at0 (runningWorkersByTaskName c) taskName"
proof -
  have a: "\<And>c. runningWorkersByTaskName (executeAndUpdateTask conv upd c taskName task f) =
     (runningWorkersByTaskName c)(taskName \<mapsto> at0 (runningWorkersByTaskName c) taskName - 1)"
  proof -
    fix c
    obtain u sl where "executeAndUpdateTask conv upd c taskName task f =
       (runningWorkerDone c taskName)\<lparr>updateCalls := u, slept := sl\<rparr>"
      using executeAndUpdateTask_frame by blast
    then show "runningWorkersByTaskName (executeAndUpdateTask conv upd c taskName task f) =
     (runningWorkersByTaskName c)(taskName \<mapsto> at0 (runningWorkersByTaskName c) taskName - 1)"
      by (simp add: runningWorkerDone_def)
  qed
  have b: "workerWaitGroup (executeAndUpdateTask conv upd c taskName task f) = workerWaitGroup c - 1"
  proof -
    obtain u sl where "executeAndUpdateTask conv upd c taskName task f =
       (runningWorkerDone c taskName)\<lparr>updateCalls := u, slept := sl\<rparr>"
      using executeAndUpdateTask_frame by blast
    then show ?thesis by (simp add: runningWorkerDone_def)
  qed
  show ?thesis
    by (simp add: a b increaseRunningWorkers_def at0_def)
qed

theorem executeAndUpdateTask_releases_once_witness:
  "at0 (runningWorkersByTaskName
      (executeAndUpdateTask completed_result (failing_until 4)
         (increaseRunningWorkers echo_runner ''echo'') ''echo'' echo_task (Some panicking_handler))) ''echo'' = 0 \<and>
   at0 (runningWorkersByTaskName
      (executeAndUpdateTask completed_result (failing_until 4)
         (increaseRunningWorkers echo_runner ''echo'') ''echo'' echo_task (Some echo_handler))) ''echo'' = 0"
  using executeAndUpdateTask_releases_once
          [of completed_result "failing_until 4" echo_runner "''echo''" echo_task "Some panicking_handler"]
        executeAndUpdateTask_releases_once
          [of completed_result "failing_until 4" echo_runner "''echo''" echo_task "Some echo_handler"]
  by (simp add: echo_runner_def eval_defs)

text \<open>
  C2, as amended. When the handler panics, \<open>executeTask\<close> builds no \<open>TaskResult\<close>; the
  panic is intercepted by the deferred handler of \<open>executeAndUpdateTask\<close>, nothing is
  sent to the result reporter for that task, the running count is released, and neither
  the poll loops nor the process are stopped.
\<close>

theorem handler_panic_reports_nothing:
  assumes "f task = Panics p"
  shows "executeTask conv task (Some f) = Inl p \<and>
    executeAndUpdateTask conv upd c taskName task (Some f) = runningWorkerDone c taskName \<and>
    updateCalls (executeAndUpdateTask conv upd c taskName task (Some f)) = updateCalls c \<and>
    pollLoops (executeAndUpdateTask conv upd c taskName task (Some f)) = pollLoops c \<and>
    crashed (executeAndUpdateTask conv upd c taskName task (Some f)) = crashed c"
  using assms
  by (simp add: executeTask_def executeAndUpdateTask_def HandlePanicError_def goroutine_end_def
      runningWorkerDone_def)

theorem handler_panic_reports_nothing_witness:
  "panicking_handler echo_task = Panics ''index out of range'' \<and>
   executeTask completed_result echo_task (Some panicking_handler) = Inl ''index out of range'' \<and>
   executeAndUpdateTask completed_result (failing_until 0) echo_runner ''echo'' echo_task
     (Some panicking_handler) = runningWorkerDone echo_runner ''echo''"
proof -
  have h: "panicking_handler echo_task = Panics ''index out of range''"
    by (simp add: panicking_handler_def)
  show ?thesis
    using h handler_panic_reports_nothing
            [of panicking_handler echo_task "''index out of range''" completed_result
                "failing_until 0" echo_runner "''echo''"]
    by simp
qed

text \<open>
  C2 as stated asks for a FAILED result sent to the reporter. With a handler that panics,
  started, polled and run, no result is built and no update is sent.
\<close>

theorem handler_panic_no_failed_result:
  "executeTask completed_result echo_task (Some panicking_handler) = Inl ''index out of range'' \<and>
   executions (run completed_result NewTaskRunner (butlast panic_events)) =
     [(''echo'', echo_task, Some panicking_handler)] \<and>
   updateCalls (run completed_result NewTaskRunner panic_events) = []"
  by (simp add: panic_events_def executeTask_def panicking_handler_def eval_defs
      executeAndUpdateTask_def)

section \<open>Capacity changes and registration\<close>

lemma busy_runner_full:
  "busy_runner =
     \<lparr>batchSizeByTaskName = [''echo'' \<mapsto> 2],
      runningWorkersByTaskName = [''echo'' \<mapsto> 2],
      pollIntervalByTaskName = [''echo'' \<mapsto> 100000000],
      pausedWorkers = [''echo'' \<mapsto> False],
      pollTimeout = - 1000000,
      pollTimeoutByTaskName = Map.empty,
      baseCtx = None,
      sleepForOnGenericError = 200000000,
      workerWaitGroup = 3,
      pollLoops = [(''echo'', Some echo_handler, '''', AtRegistered)],
      executions = [(''echo'', echo_task, Some echo_handler), (''echo'', echo_task2, Some echo_handler)],
      calls = [],
      pollCalls = [\<lparr>reqTaskName = ''echo'', reqCount = 2, reqDomain = None, reqTimeout = None\<rparr>],
      updateCalls = [],
      slept = [],
      crashed = False\<rparr>"
  by (simp add: busy_runner_def eval_defs int32_small)









text \<open>
  C9 as stated has every registration with a nil handler rejected. \<open>StartWorker\<close> and
  \<open>StartWorkerWithDomain\<close> with the nil function return nil, register the task type
  and start its poll loop.
\<close>

theorem nil_function_accepted:
  "fst (StartWorker NewTaskRunner ''echo'' None 1 (100 * Millisecond)) = None \<and>
   fst (StartWorkerWithDomain NewTaskRunner ''echo'' None 1 (100 * Millisecond) ''eu'') = None \<and>
   isWorkerRegistered (snd (StartWorker NewTaskRunner ''echo'' None 1 (100 * Millisecond))) ''echo'' \<and>
   pollLoops (snd (StartWorker NewTaskRunner ''echo'' None 1 (100 * Millisecond))) =
     [(''echo'', None, '''', AtRegistered)]"
  by (simp add: eval_defs)

text \<open>
  C9, as amended. \<open>RegisterWorker\<close> with a nil \<open>Worker\<close> returns the error "worker is
  nil" and changes nothing. A nil execute function is not checked for: \<open>StartWorker\<close>
  and \<open>StartWorkerWithDomain\<close> with it, and \<open>RegisterWorker\<close> with a worker whose
  handler is nil, return nil and register the task type.
\<close>

theorem nil_worker_rejected_nil_function_not_checked:
  "RegisterWorker c None = (Some ''worker is nil'', c) \<and>
   fst (StartWorker c taskName None batchSize pollInterval) = None \<and>
   fst (StartWorkerWithDomain c taskName None batchSize pollInterval domain) = None \<and>
   isWorkerRegistered (snd (StartWorker c taskName None batchSize pollInterval)) taskName \<and>
   isWorkerRegistered (snd (StartWorkerWithDomain c taskName None batchSize pollInterval domain)) taskName \<and>
   fst (RegisterWorker c (Some (w\<lparr>wHandler := None\<rparr>))) = None \<and>
   isWorkerRegistered (snd (RegisterWorker c (Some (w\<lparr>wHandler := None\<rparr>)))) (wTaskName w)"
  by (simp add: RegisterWorker_def StartWorker_def StartWorkerWithDomain_def startWorker_def
      withBaseContext_def go_work4ever_def
      SetPollIntervalForTask_def SetPollTimeoutForTask_def Resume_def getMaxAllowedWorkers_def
      increaseMaxAllowedWorkers_def isWorkerRegistered_def Let_def split: option.splits)

theorem nil_worker_rejected_nil_function_not_checked_witness:
  "RegisterWorker NewTaskRunner None = (Some ''worker is nil'', NewTaskRunner) \<and>
   fst (StartWorker NewTaskRunner ''echo'' None 1 (100 * Millisecond)) = None \<and>
   fst (RegisterWorker NewTaskRunner (Some (echo_worker\<lparr>wHandler := None\<rparr>))) = None"
  using nil_worker_rejected_nil_function_not_checked
          [of NewTaskRunner "''echo''" 1 "100 * Millisecond" "''''" echo_worker]
  by simp

text \<open>
  C10 as stated concludes that at most one poll loop runs per name. \<open>echo\<close> started, set
  to batch size 0 (its loop goes on) and started again has two poll loops.
\<close>

theorem second_registration_second_loop:
  "loopsFor (run completed_result NewTaskRunner (butlast restart_events)) ''echo'' = 1 \<and>
   isWorkerRegistered (run completed_result NewTaskRunner (butlast restart_events)) ''echo'' \<and>
   loopsFor (run completed_result NewTaskRunner restart_events) ''echo'' = 2"
  by (simp add: restart_events_def eval_defs)

text \<open>
  C10, as amended. \<open>startWorker\<close> (and so \<open>StartWorker\<close> and \<open>RegisterWorker\<close>) on a
  name already registered adds the batch size to the capacity, as Go adds, sets the
  paused flag of the name to false whatever it was, and starts a poll loop exactly when
  the capacity before the call was below 1.
\<close>

theorem startWorker_adds_to_capacity:
  "fst (startWorker c taskName f batchSize pollInterval domain) = None \<and>
   batchSizeByTaskName (snd (startWorker c taskName f batchSize pollInterval domain)) taskName =
     Some (at0 (batchSizeByTaskName c) taskName + batchSize) \<and>
   pausedWorkers (snd (startWorker c taskName f batchSize pollInterval domain)) taskName = Some False \<and>
   pollLoops (snd (startWorker c taskName f batchSize pollInterval domain)) =
     (if sint (at0 (batchSizeByTaskName c) taskName) < 1
      then pollLoops c @ [(taskName, f, domain, AtRegistered)]
      else pollLoops c) \<and>
   fst (RegisterWorker c (Some w)) = None \<and>
   batchSizeByTaskName (snd (RegisterWorker c (Some w))) (wTaskName w) =
     Some (at0 (batchSizeByTaskName c) (wTaskName w) + BatchSize (wOptions w)) \<and>
   pausedWorkers (snd (RegisterWorker c (Some w))) (wTaskName w) = Some False \<and>
   pollLoops (snd (RegisterWorker c (Some w))) =
     (if sint (at0 (batchSizeByTaskName c) (wTaskName w)) < 1
      then pollLoops c @ [(wTaskName w, wHandler w, DomainOpt (wOptions w), AtRegistered)]
      else pollLoops c)"
  by (simp add: RegisterWorker_def startWorker_def withBaseContext_def go_work4ever_def
      SetPollIntervalForTask_def SetPollTimeoutForTask_def Resume_def getMaxAllowedWorkers_def
      increaseMaxAllowedWorkers_def at0_def Let_def split: option.splits)

theorem startWorker_adds_to_capacity_witness:
  "batchSizeByTaskName (snd (startWorker (Pause echo_runner ''echo'') ''echo'' (Some echo_handler) 3
       (100 * Millisecond) '''')) ''echo'' = Some 5 \<and>
   pausedWorkers (snd (startWorker (Pause echo_runner ''echo'') ''echo'' (Some echo_handler) 3
       (100 * Millisecond) '''')) ''echo'' = Some False \<and>
   pollLoops (snd (startWorker (Pause echo_runner ''echo'') ''echo'' (Some echo_handler) 3
       (100 * Millisecond) '''')) = pollLoops echo_runner \<and>
   batchSizeByTaskName (snd (startWorker echo_runner ''echo'' (Some echo_handler) MaxInt64
       (100 * Millisecond) '''')) ''echo'' = Some (MinInt64 + 1)"
proof -
  have e: "batchSizeByTaskName (Pause echo_runner ''echo'') = [''echo'' \<mapsto> 2] \<and>
      pollLoops (Pause echo_runner ''echo'') = pollLoops echo_runner \<and>
      batchSizeByTaskName echo_runner = [''echo'' \<mapsto> 2]"
    by (simp add: echo_runner_def eval_defs)
  show ?thesis
    using startWorker_adds_to_capacity
            [of "Pause echo_runner ''echo''" "''echo''" "Some echo_handler" 3 "100 * Millisecond" "''''"]
          startWorker_adds_to_capacity
            [of echo_runner "''echo''" "Some echo_handler" MaxInt64 "100 * Millisecond" "''''"]
    by (simp add: e at0_def MaxInt64_def MinInt64_def)
qed

section \<open>A poll is sent only after the capacity check\<close>

lemma loop_step_frame:
  "pollLoops (snd (loop_step c taskName f domain pc resp)) = pollLoops c \<and>
   calls (snd (loop_step c taskName f domain pc resp)) = calls c \<and>
   batchSizeByTaskName (snd (loop_step c taskName f domain pc resp)) = batchSizeByTaskName c"
  by (cases pc)
     (auto simp: loop_step_def work4ever_return_def HandlePanicError_def goroutine_end_def
        pauseOnGenericError_def pauseOnNoAvailableWorkerError_def Sleep_def
        getMaxAllowedWorkers_def getRunningWorkers_def GetPollTimeoutForTask_def
        GetPollIntervalForTask_def BatchPoll_remote_def dispatch1_def increaseRunningWorkers_def
        Let_def split: option.splits poll_response.splits list.splits)

lemma loop_step_pollCalls:
  "pollCalls (snd (loop_step c taskName f domain pc resp)) =
     (case pc of
        AtBatchPoll count timeout \<Rightarrow>
          pollCalls c @
            [\<lparr>reqTaskName = taskName, reqCount = int32 (sint count),
              reqDomain = (if domain \<noteq> '''' then Some domain else None),
              reqTimeout = (if timeout \<ge> 0 then Some (int32 (Milliseconds timeout)) else None)\<rparr>]
      | _ \<Rightarrow> pollCalls c)"
  by (cases pc)
     (auto simp: loop_step_def work4ever_return_def HandlePanicError_def goroutine_end_def
        pauseOnGenericError_def pauseOnNoAvailableWorkerError_def Sleep_def
        getMaxAllowedWorkers_def getRunningWorkers_def GetPollTimeoutForTask_def
        GetPollIntervalForTask_def BatchPoll_remote_def dispatch1_def increaseRunningWorkers_def
        Let_def split: option.splits poll_response.splits list.splits)

lemma loop_step_to_AtTimeout:
  "fst (loop_step c taskName f domain pc resp) = Some (AtTimeout b) \<Longrightarrow>
   pc = AtRunning (b + at0 (runningWorkersByTaskName c) taskName) \<and> 1 \<le> sint b"
  by (cases pc)
     (auto simp: loop_step_def getMaxAllowedWorkers_def getRunningWorkers_def
        GetPollTimeoutForTask_def GetPollIntervalForTask_def BatchPoll_remote_def at0_def
        Let_def split: option.splits poll_response.splits list.splits if_splits)

lemma loop_step_to_AtBatchPoll:
  "fst (loop_step c taskName f domain pc resp) = Some (AtBatchPoll count timeout) \<Longrightarrow>
   pc = AtTimeout count"
  by (cases pc)
     (auto simp: loop_step_def getMaxAllowedWorkers_def getRunningWorkers_def
        GetPollTimeoutForTask_def GetPollIntervalForTask_def BatchPoll_remote_def
        Let_def split: option.splits poll_response.splits list.splits if_splits)

lemma loop_step_to_AtRunning:
  "fst (loop_step c taskName f domain pc resp) = Some (AtRunning allowed) \<Longrightarrow>
   pc = AtAllowed \<and> allowed = at0 (batchSizeByTaskName c) taskName"
  by (cases pc)
     (auto simp: loop_step_def getMaxAllowedWorkers_def getRunningWorkers_def
        GetPollTimeoutForTask_def GetPollIntervalForTask_def BatchPoll_remote_def at0_def
        Let_def split: option.splits poll_response.splits list.splits if_splits)

lemma loop_step_checked:
  assumes "checked pc" and "fst (loop_step c taskName f domain pc resp) = Some pc1"
  shows "checked pc1"
proof (cases pc1)
  case (AtTimeout b)
  with assms(2) loop_step_to_AtTimeout [of c taskName f domain pc resp b] show ?thesis by simp
next
  case (AtBatchPoll count timeout)
  with assms loop_step_to_AtBatchPoll [of c taskName f domain pc resp count timeout]
  show ?thesis by simp
qed simp_all

lemma call_step_pollLoops:
  "pollLoops (snd (call_step c k)) = pollLoops c \<or>
   (\<exists>n f d. k = startWorker_go n f d \<and> pollLoops (snd (call_step c k)) = pollLoops c @ [(n, f, d, AtRegistered)])"
  by (cases k)
     (auto simp: SetBatchSize_locked_def IncreaseBatchSize_locked_def DecreaseBatchSize_locked_def
        Pause_def Resume_def SetPollIntervalForTask_def SetPollTimeoutForTask_def
        getMaxAllowedWorkers_def increaseMaxAllowedWorkers_def go_work4ever_def Let_def
        split: option.splits)

lemma call_step_calls: "calls (snd (call_step c k)) = calls c"
  by (cases k)
     (auto simp: SetBatchSize_locked_def IncreaseBatchSize_locked_def DecreaseBatchSize_locked_def
        Pause_def Resume_def SetPollIntervalForTask_def SetPollTimeoutForTask_def
        getMaxAllowedWorkers_def increaseMaxAllowedWorkers_def go_work4ever_def Let_def
        split: option.splits)

lemma list_all_update: "list_all P xs \<Longrightarrow> P y \<Longrightarrow> list_all P (xs[i := y])"
  by (auto simp: list_all_iff dest: set_update_subset_insert [THEN subsetD])

lemma list_all_drop_nth: "list_all P xs \<Longrightarrow> list_all P (drop_nth i xs)"
  by (auto simp: list_all_iff drop_nth_def dest: in_set_takeD in_set_dropD)

lemma step_exec_frame:
  "batchSizeByTaskName (step_exec conv c i upd) = batchSizeByTaskName c \<and>
   pollCalls (step_exec conv c i upd) = pollCalls c \<and>
   pollLoops (step_exec conv c i upd) = pollLoops c \<and>
   calls (step_exec conv c i upd) = calls c"
proof (cases "i < length (executions c)")
  case False
  then show ?thesis by (simp add: step_exec_def)
next
  case True
  obtain m t f where e: "executions c ! i = (m, t, f)" by (cases "executions c ! i")
  let ?c0 = "c\<lparr>executions := drop_nth i (executions c)\<rparr>"
  obtain u sl where "executeAndUpdateTask conv upd ?c0 m t f =
      (runningWorkerDone ?c0 m)\<lparr>updateCalls := u, slept := sl\<rparr>"
    using executeAndUpdateTask_frame by blast
  then show ?thesis
    using True e by (simp add: step_exec_def runningWorkerDone_def)
qed

lemma step_loop_all_checked:
  assumes "all_checked c"
  shows "all_checked (step_loop c i resp)"
proof (cases "i < length (pollLoops c)")
  case False
  with assms show ?thesis by (simp add: step_loop_def)
next
  case True
  obtain n f d pc where l: "pollLoops c ! i = (n, f, d, pc)" by (cases "pollLoops c ! i") auto
  obtain r c1 where s: "loop_step c n f d pc resp = (r, c1)" by (cases "loop_step c n f d pc resp")
  have fr: "pollLoops c1 = pollLoops c"
    using loop_step_frame [of c n f d pc resp] s by simp
  have old: "checked pc"
    using assms True l by (auto simp: all_checked_def list_all_length)
  show ?thesis
  proof (cases r)
    case None
    with True l s fr assms show ?thesis
      by (simp add: step_loop_def all_checked_def list_all_drop_nth)
  next
    case (Some pc1)
    have "checked pc1"
      using loop_step_checked [OF old, of c n f d resp pc1] s Some by simp
    with True l s fr assms Some show ?thesis
      by (simp add: step_loop_def all_checked_def list_all_update)
  qed
qed

lemma step_call_all_checked:
  assumes "all_checked c"
  shows "all_checked (step_call c i)"
proof (cases "i < length (calls c)")
  case False
  with assms show ?thesis by (simp add: step_call_def)
next
  case True
  obtain r c1 where s: "call_step c (calls c ! i) = (r, c1)" by (cases "call_step c (calls c ! i)")
  have "all_checked c1"
    using call_step_pollLoops [of c "calls c ! i"] s assms by (auto simp: all_checked_def)
  with True s show ?thesis
    by (cases r) (simp_all add: step_call_def all_checked_def)
qed

lemma step_all_checked: "all_checked c \<Longrightarrow> all_checked (step conv c e)"
proof (cases e)
  case (EvBegin a)
  assume "all_checked c"
  with EvBegin show ?thesis by (simp add: all_checked_def)
next
  case (EvCall i)
  assume "all_checked c"
  with EvCall show ?thesis by (simp add: step_call_all_checked)
next
  case (EvLoop i resp)
  assume "all_checked c"
  with EvLoop show ?thesis by (simp add: step_loop_all_checked)
next
  case (EvExec i upd)
  assume "all_checked c"
  with EvExec step_exec_frame [of conv c i upd] show ?thesis by (simp add: all_checked_def)
qed

lemma run_all_checked: "all_checked c \<Longrightarrow> all_checked (run conv c evs)"
  by (induction evs arbitrary: c) (simp_all add: step_all_checked)

text \<open>
  C1 as stated has the running count at most the capacity when the loop decides to poll.
  With two tasks in flight for \<open>echo\<close> at batch size 2 and the batch size increased by
  the largest int, the capacity wraps to the smallest int plus 1,
  \<open>capacity - running\<close> wraps to the largest int, and the loop goes on to poll with
  a running count of 2 above the capacity.
\<close>

theorem capacity_check_wraps:
  "batchSizeByTaskName (run completed_result busy_runner wrapped_events) ''echo'' = Some (MinInt64 + 1) \<and>
   runningWorkersByTaskName (run completed_result busy_runner wrapped_events) ''echo'' = Some 2 \<and>
   pollLoops (run completed_result busy_runner wrapped_events) =
     [(''echo'', Some echo_handler, '''', AtTimeout MaxInt64)] \<and>
   sint (MinInt64 + 1) < sint (2 :: goint) \<and>
   length (pollCalls (run completed_result busy_runner wrapped_events)) = 1 \<and>
   length (pollCalls (run completed_result busy_runner (wrapped_events @ through_poll PollNoContent))) = 2"
  by (simp add: wrapped_events_def busy_runner_full eval_defs MaxInt64_def MinInt64_def)

text \<open>
  C1, as amended. A poll loop sends a batch poll only from the step after its capacity
  check, and in every schedule from a new runner a loop that has passed the check holds a
  count of at least 1: the difference, as Go computes it, of the capacity it read and of the running count
  it read after that. The poll asks for \<open>int32(count)\<close> tasks, at most \<open>count\<close>. If the
  capacity is still the one read when the running count is read, and the difference does
  not wrap, the running count is below the capacity at the check. Each task returned is
  dispatched by a step of its own, which adds one to the running count and then starts its
  goroutine.
\<close>

theorem poll_follows_capacity_check:
  assumes "all_checked c"
  shows "all_checked NewTaskRunner \<and> all_checked (run conv c evs) \<and>
    (i < length (pollLoops (run conv c evs)) \<and>
     snd (snd (snd (pollLoops (run conv c evs) ! i))) = AtBatchPoll count timeout \<longrightarrow>
       1 \<le> sint count) \<and>
    pollCalls (snd (loop_step c taskName f domain pc resp)) =
      (case pc of
         AtBatchPoll count timeout \<Rightarrow>
           pollCalls c @
             [\<lparr>reqTaskName = taskName, reqCount = int32 (sint count),
               reqDomain = (if domain \<noteq> '''' then Some domain else None),
               reqTimeout = (if timeout \<ge> 0 then Some (int32 (Milliseconds timeout)) else None)\<rparr>]
       | _ \<Rightarrow> pollCalls c) \<and>
    (1 \<le> sint count \<longrightarrow> int32 (sint count) \<le> sint count) \<and>
    (fst (loop_step c taskName f domain pc resp) = Some (AtBatchPoll count timeout) \<longrightarrow>
       pc = AtTimeout count) \<and>
    (fst (loop_step c taskName f domain pc resp) = Some (AtTimeout b) \<longrightarrow>
       pc = AtRunning (b + at0 (runningWorkersByTaskName c) taskName) \<and> 1 \<le> sint b) \<and>
    (fst (loop_step c taskName f domain pc resp) = Some (AtRunning allowed) \<longrightarrow>
       pc = AtAllowed \<and> allowed = at0 (batchSizeByTaskName c) taskName) \<and>
    (fst (loop_step c taskName f domain (AtRunning (at0 (batchSizeByTaskName c) taskName)) resp) =
       Some (AtTimeout b) \<and>
     - (2 ^ 63) \<le> sint (at0 (batchSizeByTaskName c) taskName) -
                    sint (at0 (runningWorkersByTaskName c) taskName) \<and>
     sint (at0 (batchSizeByTaskName c) taskName) -
       sint (at0 (runningWorkersByTaskName c) taskName) < 2 ^ 63 \<longrightarrow>
       sint (at0 (runningWorkersByTaskName c) taskName) < sint (at0 (batchSizeByTaskName c) taskName)) \<and>
    fst (loop_step c taskName f domain (AtBatchPoll count timeout) (PollTasks (t # ts))) =
      Some (AtDispatch (t # ts)) \<and>
    fst (loop_step c taskName f domain (AtDispatch (t # ts)) resp) =
      Some (if ts = [] then AtRegistered else AtDispatch ts) \<and>
    runningWorkersByTaskName (snd (loop_step c taskName f domain (AtDispatch (t # ts)) resp)) =
      (runningWorkersByTaskName c)(taskName \<mapsto> at0 (runningWorkersByTaskName c) taskName + 1) \<and>
    executions (snd (loop_step c taskName f domain (AtDispatch (t # ts)) resp)) =
      executions c @ [(taskName, t, f)]"
proof -
  have init: "all_checked NewTaskRunner"
    by (simp add: all_checked_def NewTaskRunner_def)
  have inv: "all_checked (run conv c evs)"
    using assms by (rule run_all_checked)
  have held: "1 \<le> sint count"
    if "i < length (pollLoops (run conv c evs))"
      "snd (snd (snd (pollLoops (run conv c evs) ! i))) = AtBatchPoll count timeout"
  proof -
    from inv that(1) have "checked (snd (snd (snd (pollLoops (run conv c evs) ! i))))"
      by (simp add: all_checked_def list_all_length)
    with that(2) show ?thesis by simp
  qed
  have bound: "sint (at0 (runningWorkersByTaskName c) taskName) < sint (at0 (batchSizeByTaskName c) taskName)"
    if s: "fst (loop_step c taskName f domain (AtRunning (at0 (batchSizeByTaskName c) taskName)) resp) =
       Some (AtTimeout b)"
      and lo: "- (2 ^ 63) \<le> sint (at0 (batchSizeByTaskName c) taskName) -
                    sint (at0 (runningWorkersByTaskName c) taskName)"
      and hi: "sint (at0 (batchSizeByTaskName c) taskName) -
                sint (at0 (runningWorkersByTaskName c) taskName) < 2 ^ 63"
  proof -
    from loop_step_to_AtTimeout [OF s]
    have b: "at0 (batchSizeByTaskName c) taskName = b + at0 (runningWorkersByTaskName c) taskName"
      and p: "1 \<le> sint b" by simp_all
    from b have "b = at0 (batchSizeByTaskName c) taskName - at0 (runningWorkersByTaskName c) taskName"
      by simp
    with sint_diff_exact [OF lo hi] p show ?thesis by simp
  qed
  have disp: "fst (loop_step c taskName f domain (AtBatchPoll count timeout) (PollTasks (t # ts))) =
      Some (AtDispatch (t # ts)) \<and>
    fst (loop_step c taskName f domain (AtDispatch (t # ts)) resp) =
      Some (if ts = [] then AtRegistered else AtDispatch ts) \<and>
    runningWorkersByTaskName (snd (loop_step c taskName f domain (AtDispatch (t # ts)) resp)) =
      (runningWorkersByTaskName c)(taskName \<mapsto> at0 (runningWorkersByTaskName c) taskName + 1) \<and>
    executions (snd (loop_step c taskName f domain (AtDispatch (t # ts)) resp)) =
      executions c @ [(taskName, t, f)]"
    by (simp add: loop_step_def BatchPoll_remote_def dispatch1_def increaseRunningWorkers_def Let_def)
  show ?thesis
    using init inv held bound disp loop_step_pollCalls [of c taskName f domain pc resp]
      int32_le_self [of "sint count"]
      loop_step_to_AtBatchPoll [of c taskName f domain pc resp count timeout]
      loop_step_to_AtTimeout [of c taskName f domain pc resp b]
      loop_step_to_AtRunning [of c taskName f domain pc resp allowed]
    by blast
qed

lemma echo_runner_full:
  "echo_runner =
     \<lparr>batchSizeByTaskName = [''echo'' \<mapsto> 2],
      runningWorkersByTaskName = Map.empty,
      pollIntervalByTaskName = [''echo'' \<mapsto> 100000000],
      pausedWorkers = [''echo'' \<mapsto> False],
      pollTimeout = - 1000000,
      pollTimeoutByTaskName = Map.empty,
      baseCtx = None,
      sleepForOnGenericError = 200000000,
      workerWaitGroup = 1,
      pollLoops = [(''echo'', Some echo_handler, '''', AtRegistered)],
      executions = [],
      calls = [],
      pollCalls = [],
      updateCalls = [],
      slept = [],
      crashed = False\<rparr>"
  by (simp add: echo_runner_def eval_defs)

theorem poll_follows_capacity_check_witness:
  "pollLoops (run completed_result echo_runner (to_capacity_check @ [EvLoop 0 PollNoContent])) =
     [(''echo'', Some echo_handler, '''', AtBatchPoll 2 (- 1000000))] \<and>
   1 \<le> sint (2 :: goint) \<and> int32 (sint (2 :: goint)) \<le> sint (2 :: goint) \<and>
   fst (loop_step echo_runner ''echo'' (Some echo_handler) ''''
          (AtRunning (at0 (batchSizeByTaskName echo_runner) ''echo'')) PollNoContent) =
     Some (AtTimeout 2) \<and>
   sint (at0 (runningWorkersByTaskName echo_runner) ''echo'') <
     sint (at0 (batchSizeByTaskName echo_runner) ''echo'') \<and>
   fst (loop_step echo_runner ''echo'' (Some echo_handler) '''' (AtTimeout 2) PollNoContent) =
     Some (AtBatchPoll 2 (- 1000000)) \<and>
   fst (loop_step echo_runner ''echo'' (Some echo_handler) '''' AtAllowed PollNoContent) =
     Some (AtRunning 2) \<and>
   pollCalls (snd (loop_step echo_runner ''echo'' (Some echo_handler) '''' (AtBatchPoll 2 (- 1000000))
                (PollTasks [echo_task]))) =
     [\<lparr>reqTaskName = ''echo'', reqCount = 2, reqDomain = None, reqTimeout = None\<rparr>]"
proof -
  have a: "all_checked echo_runner"
    by (simp add: all_checked_def echo_runner_full)
  have l: "pollLoops (run completed_result echo_runner (to_capacity_check @ [EvLoop 0 PollNoContent])) =
     [(''echo'', Some echo_handler, '''', AtBatchPoll 2 (- 1000000))]"
    by (simp add: echo_runner_full eval_defs)
  have s1: "fst (loop_step echo_runner ''echo'' (Some echo_handler) ''''
          (AtRunning (at0 (batchSizeByTaskName echo_runner) ''echo'')) PollNoContent) =
     Some (AtTimeout 2)"
    by (simp add: echo_runner_full eval_defs)
  have s2: "fst (loop_step echo_runner ''echo'' (Some echo_handler) '''' (AtTimeout 2) PollNoContent) =
     Some (AtBatchPoll 2 (- 1000000))"
    by (simp add: echo_runner_full eval_defs)
  have s3: "fst (loop_step echo_runner ''echo'' (Some echo_handler) '''' AtAllowed PollNoContent) =
     Some (AtRunning 2)"
    by (simp add: echo_runner_full eval_defs)
  have v: "at0 (batchSizeByTaskName echo_runner) ''echo'' = 2"
    "at0 (runningWorkersByTaskName echo_runner) ''echo'' = 0"
    "pollCalls echo_runner = []"
    by (simp_all add: echo_runner_full at0_def)
  show ?thesis
    using l s1 s2 s3
      poll_follows_capacity_check [OF a, of completed_result
        "to_capacity_check @ [EvLoop 0 PollNoContent]" 0 2 "- 1000000" "''echo''" "Some echo_handler"
        "''''" "AtRunning 2" PollNoContent 2 2 echo_task "[]"]
      poll_follows_capacity_check [OF a, of completed_result "[]" 0 2 "- 1000000" "''echo''"
        "Some echo_handler" "''''" "AtTimeout 2" PollNoContent 2 2 echo_task "[]"]
      poll_follows_capacity_check [OF a, of completed_result "[]" 0 2 "- 1000000" "''echo''"
        "Some echo_handler" "''''" "AtAllowed" PollNoContent 2 2 echo_task "[]"]
      poll_follows_capacity_check [OF a, of completed_result "[]" 0 2 "- 1000000" "''echo''"
        "Some echo_handler" "''''" "AtBatchPoll 2 (- 1000000)" "PollTasks [echo_task]" 2 2 echo_task "[]"]
    by (simp add: v int32_small Milliseconds_def)
qed

section \<open>Shutdown\<close>

lemma filter_drop_nth_count:
  "i < length xs \<Longrightarrow>
   length (filter P (drop_nth i xs)) + (if P (xs ! i) then 1 else 0) = length (filter P xs)"
proof -
  assume a: "i < length xs"
  have "xs = take i xs @ xs ! i # drop (Suc i) xs"
    using a by (simp add: id_take_nth_drop [symmetric])
  then have "filter P xs = filter P (take i xs) @ filter P [xs ! i] @ filter P (drop (Suc i) xs)"
    by (metis append_Cons append_Nil filter_append)
  then show ?thesis by (simp add: drop_nth_def)
qed

lemma filter_update_count:
  "i < length xs \<Longrightarrow>
   length (filter P (xs[i := y])) + (if P (xs ! i) then 1 else 0) =
   length (filter P xs) + (if P y then 1 else 0)"
proof -
  assume a: "i < length xs"
  have x: "xs = take i xs @ xs ! i # drop (Suc i) xs"
    using a by (simp add: id_take_nth_drop [symmetric])
  have u: "xs[i := y] = take i xs @ y # drop (Suc i) xs"
    using a by (simp add: upd_conv_take_nth_drop)
  have "filter P xs = filter P (take i xs) @ filter P [xs ! i] @ filter P (drop (Suc i) xs)"
    using x by (metis append_Cons append_Nil filter_append)
  moreover have "filter P (xs[i := y]) = filter P (take i xs) @ filter P [y] @ filter P (drop (Suc i) xs)"
    using u by (metis append_Cons append_Nil filter_append)
  ultimately show ?thesis by simp
qed

lemma call_step_keeps:
  assumes "batchSizeByTaskName c n = None" and "\<not> writes n k"
  shows "batchSizeByTaskName (snd (call_step c k)) n = None \<and>
     pollCalls (snd (call_step c k)) = pollCalls c \<and>
     (case fst (call_step c k) of None \<Rightarrow> True | Some k1 \<Rightarrow> \<not> writes n k1)"
  using assms
  by (cases k)
     (auto simp: SetBatchSize_locked_def IncreaseBatchSize_locked_def DecreaseBatchSize_locked_def
        Pause_def Resume_def SetPollIntervalForTask_def SetPollTimeoutForTask_def
        getMaxAllowedWorkers_def increaseMaxAllowedWorkers_def go_work4ever_def
        withBaseContext_def isWorkerRegistered_def Let_def
        split: option.splits)

lemma call_step_loops:
  assumes "\<not> writes n k"
  shows "filter (\<lambda>l. fst l = n) (pollLoops (snd (call_step c k))) =
       filter (\<lambda>l. fst l = n) (pollLoops c) \<and>
     filter (\<lambda>l. fst l = n \<and> before_poll (snd (snd (snd l)))) (pollLoops (snd (call_step c k))) =
       filter (\<lambda>l. fst l = n \<and> before_poll (snd (snd (snd l)))) (pollLoops c)"
  using call_step_pollLoops [of c k] assms by auto

lemma step_call_keeps:
  assumes "batchSizeByTaskName c n = None" and "list_all (\<lambda>k. \<not> writes n k) (calls c)"
  shows "batchSizeByTaskName (step_call c i) n = None \<and>
     list_all (\<lambda>k. \<not> writes n k) (calls (step_call c i)) \<and>
     pollCalls (step_call c i) = pollCalls c \<and>
     loopsFor (step_call c i) n = loopsFor c n \<and>
     inTurnFor (step_call c i) n = inTurnFor c n"
proof (cases "i < length (calls c)")
  case False
  with assms show ?thesis by (simp add: step_call_def)
next
  case True
  let ?k = "calls c ! i"
  have nw: "\<not> writes n ?k"
    using assms(2) True by (simp add: list_all_length)
  obtain r c1 where s: "call_step c ?k = (r, c1)" by (cases "call_step c ?k")
  have k: "batchSizeByTaskName c1 n = None" "pollCalls c1 = pollCalls c"
    "case r of None \<Rightarrow> True | Some k1 \<Rightarrow> \<not> writes n k1"
    using call_step_keeps [OF assms(1) nw] s by simp_all
  have l: "loopsFor c1 n = loopsFor c n" "inTurnFor c1 n = inTurnFor c n"
    using call_step_loops [OF nw, of c] s by (simp_all add: loopsFor_def inTurnFor_def)
  have cs: "calls c1 = calls c"
    using call_step_calls [of c ?k] s by simp
  show ?thesis
  proof (cases r)
    case None
    with True s k l cs assms(2) show ?thesis
      by (simp add: step_call_def loopsFor_def inTurnFor_def list_all_drop_nth)
  next
    case (Some k1)
    with True s k l cs assms(2) show ?thesis
      by (simp add: step_call_def loopsFor_def inTurnFor_def list_all_update)
  qed
qed

lemma loop_step_unregistered:
  "\<not> isWorkerRegistered c taskName \<Longrightarrow>
   loop_step c taskName f domain AtRegistered resp =
     (None, c\<lparr>workerWaitGroup := workerWaitGroup c - 1\<rparr>)"
  by (simp add: loop_step_def work4ever_return_def HandlePanicError_def goroutine_end_def)

lemma loop_step_after_poll:
  assumes "batchSizeByTaskName c n = None"
    and "fst (loop_step c n f d pc resp) = Some pc1" and "before_poll pc1"
  shows "before_poll pc \<and> (\<forall>count timeout. pc \<noteq> AtBatchPoll count timeout)"
  using assms
  by (cases pc)
     (auto simp: loop_step_def isWorkerRegistered_def getMaxAllowedWorkers_def
        getRunningWorkers_def GetPollTimeoutForTask_def GetPollIntervalForTask_def
        BatchPoll_remote_def Let_def
        split: option.splits poll_response.splits list.splits if_splits)

lemma loop_step_pollsFor:
  "\<exists>xs. pollsFor (snd (loop_step c m f d pc resp)) n = pollsFor c n @ xs \<and>
     length xs = (if m = n then (case pc of AtBatchPoll count timeout \<Rightarrow> 1 | _ \<Rightarrow> 0) else 0)"
  by (cases pc) (simp_all add: loop_step_pollCalls pollsFor_def)

lemma step_loop_keeps:
  assumes "batchSizeByTaskName c n = None"
  shows "batchSizeByTaskName (step_loop c i resp) n = None \<and>
     calls (step_loop c i resp) = calls c \<and>
     loopsFor (step_loop c i resp) n \<le> loopsFor c n \<and>
     (\<exists>xs. pollsFor (step_loop c i resp) n = pollsFor c n @ xs \<and>
        length xs + inTurnFor (step_loop c i resp) n \<le> inTurnFor c n)"
proof (cases "i < length (pollLoops c)")
  case False
  then show ?thesis using assms by (simp add: step_loop_def)
next
  case True
  obtain m f d pc where l: "pollLoops c ! i = (m, f, d, pc)" by (cases "pollLoops c ! i") auto
  obtain r c1 where s: "loop_step c m f d pc resp = (r, c1)" by (cases "loop_step c m f d pc resp")
  have fr: "pollLoops c1 = pollLoops c" "calls c1 = calls c" "batchSizeByTaskName c1 = batchSizeByTaskName c"
    using loop_step_frame [of c m f d pc resp] s by simp_all
  let ?Q = "\<lambda>l :: string \<times> ExecuteTaskFunction option \<times> string \<times> loop_pc. fst l = n"
  let ?P = "\<lambda>l :: string \<times> ExecuteTaskFunction option \<times> string \<times> loop_pc.
              fst l = n \<and> before_poll (snd (snd (snd l)))"
  obtain xs where polls: "pollsFor c1 n = pollsFor c n @ xs"
    and len: "length xs = (if m = n then (case pc of AtBatchPoll count timeout \<Rightarrow> 1 | _ \<Rightarrow> 0) else 0)"
    using loop_step_pollsFor [of c m f d pc resp n] s by auto
  show ?thesis
  proof (cases r)
    case None
    have st: "step_loop c i resp = c1\<lparr>pollLoops := drop_nth i (pollLoops c)\<rparr>"
      using True l s None fr by (simp add: step_loop_def)
    have q: "length (filter ?Q (drop_nth i (pollLoops c))) \<le> length (filter ?Q (pollLoops c))"
      using filter_drop_nth_count [OF True, of ?Q] by simp
    have p: "length (filter ?P (drop_nth i (pollLoops c))) + (if ?P (pollLoops c ! i) then 1 else 0) =
        length (filter ?P (pollLoops c))"
      using filter_drop_nth_count [OF True, of ?P] by simp
    have "length xs \<le> (if ?P (pollLoops c ! i) then 1 else 0)"
      using len l by (cases pc) simp_all
    with p have "length xs + length (filter ?P (drop_nth i (pollLoops c))) \<le>
        length (filter ?P (pollLoops c))" by simp
    with q polls fr assms show ?thesis
      by (simp add: st loopsFor_def inTurnFor_def pollsFor_def)
  next
    case (Some pc1)
    have st: "step_loop c i resp = c1\<lparr>pollLoops := (pollLoops c)[i := (m, f, d, pc1)]\<rparr>"
      using True l s Some fr by (simp add: step_loop_def)
    have q: "length (filter ?Q ((pollLoops c)[i := (m, f, d, pc1)])) = length (filter ?Q (pollLoops c))"
      using filter_update_count [OF True, of ?Q "(m, f, d, pc1)"] l by simp
    have p: "length (filter ?P ((pollLoops c)[i := (m, f, d, pc1)])) +
          (if ?P (pollLoops c ! i) then 1 else 0) =
        length (filter ?P (pollLoops c)) + (if ?P (m, f, d, pc1) then 1 else 0)"
      using filter_update_count [OF True, of ?P "(m, f, d, pc1)"] by simp
    have "length xs + (if ?P (m, f, d, pc1) then 1 else 0) \<le> (if ?P (pollLoops c ! i) then 1 else 0)"
    proof (cases "m = n")
      case False
      then show ?thesis using len l by simp
    next
      case True
      show ?thesis
      proof (cases "before_poll pc1")
        case True
        from loop_step_after_poll [OF assms, of f d pc resp pc1] s Some \<open>m = n\<close> True
        have "before_poll pc" "\<forall>count timeout. pc \<noteq> AtBatchPoll count timeout" by simp_all
        then show ?thesis using len l \<open>m = n\<close> by (cases pc) simp_all
      next
        case False
        then show ?thesis using len l \<open>m = n\<close> by (cases pc) simp_all
      qed
    qed
    with p have "length xs + length (filter ?P ((pollLoops c)[i := (m, f, d, pc1)])) \<le>
        length (filter ?P (pollLoops c))" by simp
    with q polls fr assms show ?thesis
      by (simp add: st loopsFor_def inTurnFor_def pollsFor_def)
  qed
qed

lemma step_keeps:
  assumes "batchSizeByTaskName c n = None" and "list_all (\<lambda>k. \<not> writes n k) (calls c)"
    and "\<not> registers n e"
  shows "batchSizeByTaskName (step conv c e) n = None \<and>
     list_all (\<lambda>k. \<not> writes n k) (calls (step conv c e)) \<and>
     loopsFor (step conv c e) n \<le> loopsFor c n \<and>
     (\<exists>xs. pollsFor (step conv c e) n = pollsFor c n @ xs \<and>
        length xs + inTurnFor (step conv c e) n \<le> inTurnFor c n)"
proof (cases e)
  case (EvBegin a)
  have "\<not> writes n (entry a)"
    using assms(3) EvBegin by (cases a) (auto split: option.splits)
  with assms EvBegin show ?thesis
    by (simp add: loopsFor_def inTurnFor_def pollsFor_def)
next
  case (EvCall i)
  with step_call_keeps [OF assms(1,2), of i] show ?thesis
    by (simp add: pollsFor_def)
next
  case (EvLoop i resp)
  with step_loop_keeps [OF assms(1), of i resp] assms(2) show ?thesis by simp
next
  case (EvExec i upd)
  with step_exec_frame [of conv c i upd] assms show ?thesis
    by (simp add: loopsFor_def inTurnFor_def pollsFor_def)
qed

lemma run_keeps:
  "batchSizeByTaskName c n = None \<Longrightarrow> list_all (\<lambda>k. \<not> writes n k) (calls c) \<Longrightarrow>
   list_all (\<lambda>e. \<not> registers n e) evs \<Longrightarrow>
   batchSizeByTaskName (run conv c evs) n = None \<and>
   list_all (\<lambda>k. \<not> writes n k) (calls (run conv c evs)) \<and>
   loopsFor (run conv c evs) n \<le> loopsFor c n \<and>
   (\<exists>xs. pollsFor (run conv c evs) n = pollsFor c n @ xs \<and>
      length xs + inTurnFor (run conv c evs) n \<le> inTurnFor c n)"
proof (induction evs arbitrary: c)
  case Nil
  then show ?case by simp
next
  case (Cons e evs)
  let ?c1 = "step conv c e"
  from Cons.prems have ne: "\<not> registers n e" and rest: "list_all (\<lambda>e. \<not> registers n e) evs"
    by simp_all
  from step_keeps [OF Cons.prems(1,2) ne, of conv]
  obtain xs where s: "batchSizeByTaskName ?c1 n = None" "list_all (\<lambda>k. \<not> writes n k) (calls ?c1)"
    "loopsFor ?c1 n \<le> loopsFor c n" "pollsFor ?c1 n = pollsFor c n @ xs"
    "length xs + inTurnFor ?c1 n \<le> inTurnFor c n"
    by blast
  from Cons.IH [OF s(1,2) rest]
  obtain ys where t: "batchSizeByTaskName (run conv ?c1 evs) n = None"
    "list_all (\<lambda>k. \<not> writes n k) (calls (run conv ?c1 evs))"
    "loopsFor (run conv ?c1 evs) n \<le> loopsFor ?c1 n"
    "pollsFor (run conv ?c1 evs) n = pollsFor ?c1 n @ ys"
    "length ys + inTurnFor (run conv ?c1 evs) n \<le> inTurnFor ?c1 n"
    by blast
  have "pollsFor (run conv ?c1 evs) n = pollsFor c n @ (xs @ ys)"
    using s(4) t(4) by simp
  moreover have "length (xs @ ys) + inTurnFor (run conv ?c1 evs) n \<le> inTurnFor c n"
    using s(5) t(5) by simp
  ultimately have "\<exists>zs. pollsFor (run conv ?c1 evs) n = pollsFor c n @ zs \<and>
      length zs + inTurnFor (run conv ?c1 evs) n \<le> inTurnFor c n"
    by blast
  with t(1,2) t(3) s(3) show ?case by simp
qed

lemma retry_loop_Shutdown:
  "updateTaskWithRetry_loop upd tn r attempt lastError (Shutdown c n) =
     (fst (updateTaskWithRetry_loop upd tn r attempt lastError c),
      Shutdown (snd (updateTaskWithRetry_loop upd tn r attempt lastError c)) n)"
proof (induction upd tn r attempt lastError c rule: updateTaskWithRetry_loop.induct)
  case (1 upd tn r attempt lastError c)
  note unroll = updateTaskWithRetry_loop.simps [of upd tn r attempt lastError c]
  note unroll' = updateTaskWithRetry_loop.simps [of upd tn r attempt lastError "Shutdown c n"]
  show ?case
  proof (cases "attempt \<le> taskUpdateRetryAttemptsLimit")
    case False
    then show ?thesis by (simp add: unroll unroll')
  next
    case True
    let ?c1 = "if attempt > 0 then Sleep (attempt * 10 * Second) c else c"
    let ?c2 = "?c1\<lparr>updateCalls := updateCalls ?c1 @ [r]\<rparr>"
    have comm: "(if attempt > 0 then Sleep (attempt * 10 * Second) (Shutdown c n) else Shutdown c n)
        \<lparr>updateCalls := updateCalls (if attempt > 0 then Sleep (attempt * 10 * Second) (Shutdown c n)
                                      else Shutdown c n) @ [r]\<rparr> = Shutdown ?c2 n"
      by (simp add: Sleep_def Shutdown_def)
    show ?thesis
    proof (cases "upd (nat attempt)")
      case None
      with True comm show ?thesis
        by (simp add: unroll unroll' updateTask_def Let_def)
    next
      case (Some err)
      from "1.IH" [OF True refl, of "Some err" ?c2 err] Some
      have ih: "updateTaskWithRetry_loop upd tn r (attempt + 1) (Some err) (Shutdown ?c2 n) =
         (fst (updateTaskWithRetry_loop upd tn r (attempt + 1) (Some err) ?c2),
          Shutdown (snd (updateTaskWithRetry_loop upd tn r (attempt + 1) (Some err) ?c2)) n)"
        by (simp add: updateTask_def)
      have l: "updateTaskWithRetry_loop upd tn r attempt lastError c =
          updateTaskWithRetry_loop upd tn r (attempt + 1) (Some err) ?c2"
        using True Some by (simp add: unroll updateTask_def Let_def)
      have l': "updateTaskWithRetry_loop upd tn r attempt lastError (Shutdown c n) =
          updateTaskWithRetry_loop upd tn r (attempt + 1) (Some err) (Shutdown ?c2 n)"
        using True Some comm by (simp add: unroll' updateTask_def Let_def)
      show ?thesis by (simp only: l l' ih)
    qed
  qed
qed

lemma executeAndUpdateTask_Shutdown:
  "executeAndUpdateTask conv upd (Shutdown c n) m t f =
     Shutdown (executeAndUpdateTask conv upd c m t f) n"
proof (cases "executeTask conv t f")
  case (Inl p)
  then show ?thesis
    by (simp add: executeAndUpdateTask_def HandlePanicError_def goroutine_end_def
        runningWorkerDone_def Shutdown_def)
next
  case (Inr taskResult)
  have "snd (updateTaskWithRetry upd m taskResult (Shutdown c n)) =
      Shutdown (snd (updateTaskWithRetry upd m taskResult c)) n"
    by (simp add: updateTaskWithRetry_def retry_loop_Shutdown)
  with Inr show ?thesis
    by (simp add: executeAndUpdateTask_def HandlePanicError_def goroutine_end_def
        runningWorkerDone_def Shutdown_def)
qed

lemma step_exec_Shutdown:
  "step_exec conv (Shutdown c n) i upd = Shutdown (step_exec conv c i upd) n"
proof (cases "i < length (executions c)")
  case False
  then show ?thesis by (simp add: step_exec_def Shutdown_def)
next
  case True
  obtain m t f where e: "executions c ! i = (m, t, f)" by (cases "executions c ! i")
  have s: "(Shutdown c n)\<lparr>executions := drop_nth i (executions c)\<rparr> =
      Shutdown (c\<lparr>executions := drop_nth i (executions c)\<rparr>) n"
    by (simp add: Shutdown_def)
  have x: "executions (Shutdown c n) = executions c" by (simp add: Shutdown_def)
  show ?thesis
    using True e by (simp add: step_exec_def x s executeAndUpdateTask_Shutdown)
qed

lemma step_loop_at_test_unregistered:
  assumes "\<not> isWorkerRegistered c n" and "i < length (pollLoops c)"
    and "pollLoops c ! i = (n, f, d, AtRegistered)"
  shows "step_loop c i resp =
     c\<lparr>workerWaitGroup := workerWaitGroup c - 1, pollLoops := drop_nth i (pollLoops c)\<rparr>"
  using assms loop_step_unregistered [OF assms(1), of f d resp]
  by (simp add: step_loop_def)

text \<open>
  C8 as stated has no batch poll sent for a name after \<open>Shutdown\<close> has removed its
  configuration, and its poll loop gone for good. A poll loop of \<open>echo\<close> that has passed
  its capacity check when \<open>Shutdown\<close> runs sends its poll after it. And when \<open>echo\<close> is
  started again before its loop has come to its loop test, that loop never exits: there
  are two loops then.
\<close>

theorem poll_after_shutdown:
  "\<not> isWorkerRegistered (run completed_result decided_runner shutdown_events) ''echo'' \<and>
   calls (run completed_result decided_runner shutdown_events) = [] \<and>
   pollsFor (run completed_result decided_runner shutdown_events) ''echo'' = [] \<and>
   pollsFor (run completed_result decided_runner
               (shutdown_events @ through_poll (PollTasks [echo_task]))) ''echo'' =
     [\<lparr>reqTaskName = ''echo'', reqCount = 2, reqDomain = None, reqTimeout = None\<rparr>] \<and>
   loopsFor (run completed_result echo_runner
               (shutdown_events @ start_echo (Some echo_handler) 1 @ to_capacity_check)) ''echo'' = 2 \<and>
   pollLoops (run completed_result echo_runner
               (shutdown_events @ start_echo (Some echo_handler) 1 @ to_capacity_check)) =
     [(''echo'', Some echo_handler, '''', AtTimeout 1), (''echo'', Some echo_handler, '''', AtRegistered)]"
  by (simp add: decided_runner_def shutdown_events_def echo_runner_full eval_defs int32_small)

text \<open>
  C8, as amended. Take a runner in which the task type has no configuration, as after
  the first step of \<open>Shutdown\<close>, and in which no call under way will still write the batch
  size of the name or start a loop for it. Then, whatever follows short of a new call of
  \<open>StartWorker\<close>, \<open>StartWorkerWithDomain\<close> or \<open>RegisterWorker\<close> for the name (pause and
  resume included): the type stays unregistered; the number of its poll loops never goes
  up; each of its loops that is at its loop test exits there without polling; and the
  batch polls sent for the name are at most one for each of its loops that was in a turn
  and had not yet polled. With no such loop, no further batch poll is sent for the name.
  An execution in flight runs as it would have without the shutdown, reporting its result.
\<close>

theorem Shutdown_ends_polling:
  assumes "\<not> isWorkerRegistered c taskName"
    and "list_all (\<lambda>k. \<not> writes taskName k) (calls c)"
    and "list_all (\<lambda>e. \<not> registers taskName e) evs"
  shows "\<not> isWorkerRegistered (run conv c evs) taskName \<and>
    loopsFor (run conv c evs) taskName \<le> loopsFor c taskName \<and>
    (\<exists>xs. pollsFor (run conv c evs) taskName = pollsFor c taskName @ xs \<and>
       length xs + inTurnFor (run conv c evs) taskName \<le> inTurnFor c taskName) \<and>
    (inTurnFor c taskName = 0 \<longrightarrow> pollsFor (run conv c evs) taskName = pollsFor c taskName) \<and>
    (i < length (pollLoops (run conv c evs)) \<and>
     pollLoops (run conv c evs) ! i = (taskName, f, d, AtRegistered) \<longrightarrow>
       pollLoops (step_loop (run conv c evs) i resp) = drop_nth i (pollLoops (run conv c evs)) \<and>
       Suc (loopsFor (step_loop (run conv c evs) i resp) taskName) =
         loopsFor (run conv c evs) taskName \<and>
       pollCalls (step_loop (run conv c evs) i resp) = pollCalls (run conv c evs)) \<and>
    \<not> isWorkerRegistered (snd (call_step c0 (Shutdown_batchSize taskName))) taskName \<and>
    \<not> isWorkerRegistered (Shutdown c0 taskName) taskName \<and>
    calls (Shutdown c0 taskName) = calls c0 \<and>
    step_exec conv (Shutdown c0 taskName) j upd = Shutdown (step_exec conv c0 j upd) taskName"
proof -
  let ?c' = "run conv c evs"
  have u: "batchSizeByTaskName c taskName = None"
    using assms(1) by (simp add: isWorkerRegistered_def)
  from run_keeps [OF u assms(2,3), of conv]
  obtain xs where k: "batchSizeByTaskName ?c' taskName = None"
    "loopsFor ?c' taskName \<le> loopsFor c taskName"
    "pollsFor ?c' taskName = pollsFor c taskName @ xs"
    "length xs + inTurnFor ?c' taskName \<le> inTurnFor c taskName"
    by blast
  have unreg: "\<not> isWorkerRegistered ?c' taskName"
    using k(1) by (simp add: isWorkerRegistered_def)
  have none: "pollsFor ?c' taskName = pollsFor c taskName" if "inTurnFor c taskName = 0"
    using k(3,4) that by simp
  have exit: "pollLoops (step_loop ?c' i resp) = drop_nth i (pollLoops ?c') \<and>
       Suc (loopsFor (step_loop ?c' i resp) taskName) = loopsFor ?c' taskName \<and>
       pollCalls (step_loop ?c' i resp) = pollCalls ?c'"
    if "i < length (pollLoops ?c')" "pollLoops ?c' ! i = (taskName, f, d, AtRegistered)"
    using step_loop_at_test_unregistered [OF unreg that, of resp]
      filter_drop_nth_count [OF that(1), of "\<lambda>l. fst l = taskName"] that(2)
    by (simp add: loopsFor_def)
  have sh: "\<not> isWorkerRegistered (snd (call_step c0 (Shutdown_batchSize taskName))) taskName \<and>
      \<not> isWorkerRegistered (Shutdown c0 taskName) taskName \<and>
      calls (Shutdown c0 taskName) = calls c0"
    by (simp add: Shutdown_def isWorkerRegistered_def)
  show ?thesis
    using unreg k(2) k(3,4) none exit sh step_exec_Shutdown [of conv c0 taskName j upd]
    by blast
qed

theorem Shutdown_ends_polling_witness:
  "\<not> isWorkerRegistered (Shutdown busy_runner ''echo'') ''echo'' \<and>
   inTurnFor (Shutdown busy_runner ''echo'') ''echo'' = 0 \<and>
   pollLoops (run completed_result (Shutdown busy_runner ''echo'') after_shutdown_events) ! 0 =
     (''echo'', Some echo_handler, '''', AtRegistered) \<and>
   loopsFor (run completed_result (Shutdown busy_runner ''echo'') after_shutdown_events) ''echo'' = 1 \<and>
   loopsFor (step_loop (run completed_result (Shutdown busy_runner ''echo'') after_shutdown_events) 0
      (PollTasks [echo_task])) ''echo'' = 0 \<and>
   pollsFor (step_loop (run completed_result (Shutdown busy_runner ''echo'') after_shutdown_events) 0
      (PollTasks [echo_task])) ''echo'' = pollsFor busy_runner ''echo'' \<and>
   updateCalls (run completed_result (Shutdown busy_runner ''echo'') after_shutdown_events) = [echo_result]"
proof -
  have h1: "\<not> isWorkerRegistered (Shutdown busy_runner ''echo'') ''echo''"
    by (simp add: Shutdown_def isWorkerRegistered_def)
  have h2: "list_all (\<lambda>k. \<not> writes ''echo'' k) (calls (Shutdown busy_runner ''echo''))"
    by (simp add: Shutdown_def busy_runner_full)
  have h3: "list_all (\<lambda>e. \<not> registers ''echo'' e) after_shutdown_events"
    by (simp add: after_shutdown_events_def)
  have t: "inTurnFor (Shutdown busy_runner ''echo'') ''echo'' = 0"
    by (simp add: inTurnFor_def Shutdown_def busy_runner_full)
  have ex: "executeAndUpdateTask completed_result (failing_until 0) c ''echo'' echo_task (Some echo_handler) =
      (runningWorkerDone c ''echo'')\<lparr>updateCalls := updateCalls c @ [echo_result]\<rparr>" for c
    by (simp add: executeAndUpdateTask_def executeTask_def echo_handler_def completed_result_def
        echo_task_def echo_result_def retry_first failing_until_def HandlePanicError_def
        goroutine_end_def runningWorkerDone_def)
  have r: "run completed_result (Shutdown busy_runner ''echo'') after_shutdown_events =
      (runningWorkerDone (busy_runner\<lparr>executions := [(''echo'', echo_task2, Some echo_handler)]\<rparr>) ''echo'')
        \<lparr>batchSizeByTaskName := Map.empty, pollIntervalByTaskName := Map.empty,
          pausedWorkers := [''echo'' \<mapsto> False], updateCalls := [echo_result]\<rparr>"
    by (simp add: after_shutdown_events_def busy_runner_full Shutdown_def Pause_def Resume_def
        step_exec_def step_call_def drop_nth_def ex runningWorkerDone_def)
  have L: "pollLoops (run completed_result (Shutdown busy_runner ''echo'') after_shutdown_events) =
      [(''echo'', Some echo_handler, '''', AtRegistered)]"
    by (simp add: r runningWorkerDone_def) (simp add: busy_runner_full)
  have U: "updateCalls (run completed_result (Shutdown busy_runner ''echo'') after_shutdown_events) =
      [echo_result]"
    by (simp add: r)
  have P: "pollCalls (run completed_result (Shutdown busy_runner ''echo'') after_shutdown_events) =
      pollCalls busy_runner"
    by (simp add: r runningWorkerDone_def)
  show ?thesis
    using h1 t Shutdown_ends_polling [OF h1 h2 h3, of completed_result 0 "Some echo_handler" "''''"
        "PollTasks [echo_task]" busy_runner 0 "failing_until 0"]
    by (simp add: L U P loopsFor_def pollsFor_def drop_nth_def)
qed

section \<open>The two accounts of a method agree\<close>

lemma uninterrupted_call:
  "uninterrupted c (ApiStartWorker taskName f batchSize pollInterval) =
     snd (StartWorker c taskName f batchSize pollInterval)"
  "uninterrupted c (ApiStartWorkerWithDomain taskName f batchSize pollInterval domain) =
     snd (StartWorkerWithDomain c taskName f batchSize pollInterval domain)"
  "uninterrupted c (ApiRegisterWorker w) = snd (RegisterWorker c w)"
  "uninterrupted c (ApiSetBatchSize taskName batchSize) = snd (SetBatchSize c taskName batchSize)"
  "uninterrupted c (ApiIncreaseBatchSize taskName batchSize) =
     snd (IncreaseBatchSize c taskName batchSize)"
  "uninterrupted c (ApiDecreaseBatchSize taskName batchSize) =
     snd (DecreaseBatchSize c taskName batchSize)"
  "uninterrupted c (ApiPause taskName) = Pause c taskName"
  "uninterrupted c (ApiResume taskName) = Resume c taskName"
  "uninterrupted c (ApiShutdown taskName) = Shutdown c taskName"
  by (simp_all add: uninterrupted_def StartWorker_def StartWorkerWithDomain_def startWorker_def
      RegisterWorker_def SetBatchSize_def IncreaseBatchSize_def DecreaseBatchSize_def
      Shutdown_def SetPollIntervalForTask_def SetPollTimeoutForTask_def
      getMaxAllowedWorkers_def increaseMaxAllowedWorkers_def Resume_def Let_def
      split: option.splits)

lemma turn_dispatch:
  "tasks \<noteq> [] \<Longrightarrow> length tasks \<le> k \<Longrightarrow>
   turn k c taskName f domain (AtDispatch tasks) resp =
     (Some AtRegistered, dispatch c taskName f tasks)"
proof (induction tasks arbitrary: k c)
  case Nil
  then show ?case by simp
next
  case (Cons t ts)
  then obtain k1 where k: "k = Suc k1" by (cases k) auto
  show ?case
  proof (cases "ts = []")
    case True
    then show ?thesis by (simp add: k loop_step_def)
  next
    case False
    with Cons.IH [of k1 "dispatch1 c taskName f t"] Cons.prems k show ?thesis
      by (simp add: loop_step_def)
  qed
qed

lemma turn_agrees:
  "turn (7 + answered resp) c taskName f domain AtRegistered resp =
     (if fst (work4ever_iter c taskName f domain resp) then Some AtRegistered else None,
      snd (work4ever_iter c taskName f domain resp))"
proof (cases "isWorkerRegistered c taskName \<and> \<not> isPaused c taskName \<and>
    1 \<le> sint (at0 (batchSizeByTaskName c) taskName - at0 (runningWorkersByTaskName c) taskName)")
  case False
  then show ?thesis
    by (auto simp: eval_nat_numeral loop_step_def work4ever_iter_def workOnce_def available_eq
        getMaxAllowedWorkers_def getRunningWorkers_def at0_def Let_def
        split: option.splits)
next
  case True
  then have av: "\<not> sint (at0 (batchSizeByTaskName c) taskName -
      at0 (runningWorkersByTaskName c) taskName) < 1" by simp
  let ?b = "at0 (batchSizeByTaskName c) taskName - at0 (runningWorkersByTaskName c) taskName"
  have "\<exists>t. GetPollTimeoutForTask c taskName = Inr t"
    by (cases "pollTimeoutByTaskName c taskName") (simp_all add: GetPollTimeoutForTask_def)
  then obtain t where t: "GetPollTimeoutForTask c taskName = Inr t" ..
  have reach: "turn (7 + answered resp) c taskName f domain AtRegistered resp =
      turn (Suc (Suc (answered resp))) c taskName f domain (AtBatchPoll ?b t) resp"
    using True av t
    by (simp add: eval_nat_numeral loop_step_def getMaxAllowedWorkers_def getRunningWorkers_def
        at0_def Let_def split: option.splits)
  have w: "work4ever_iter c taskName f domain resp =
      (case BatchPoll_remote c taskName ?b domain t resp of
         (Panic p, c1) \<Rightarrow> (False, work4ever_return (Some p) c1)
       | (Failure err, c1) \<Rightarrow> (True, pauseOnGenericError c1)
       | (Value tasks, c1) \<Rightarrow>
           (if length tasks < 1
            then (case GetPollIntervalForTask c1 taskName of
                    Inl err \<Rightarrow> (True, pauseOnGenericError c1)
                  | Inr pollInterval \<Rightarrow> (True, Sleep pollInterval c1))
            else (True, dispatch c1 taskName f tasks)))"
    using True av t
    by (simp add: work4ever_iter_def workOnce_def available_eq batchPoll_def
        split: prod.splits outcome.splits sum.splits)
  show ?thesis
  proof (cases resp)
    case (PollError e)
    with reach w show ?thesis by (simp add: loop_step_def BatchPoll_remote_def Let_def)
  next
    case PollNoContent
    with reach w show ?thesis
      by (simp add: loop_step_def BatchPoll_remote_def Let_def GetPollIntervalForTask_def
          split: option.splits)
  next
    case (PollPanic p)
    with reach w show ?thesis by (simp add: loop_step_def BatchPoll_remote_def Let_def)
  next
    case (PollTasks tasks)
    show ?thesis
    proof (cases "tasks = []")
      case True
      with PollTasks reach w show ?thesis
        by (simp add: loop_step_def BatchPoll_remote_def Let_def GetPollIntervalForTask_def
            split: option.splits)
    next
      case False
      let ?c1 = "c\<lparr>pollCalls := pollCalls c @
            [\<lparr>reqTaskName = taskName, reqCount = int32 (sint ?b),
              reqDomain = (if domain \<noteq> '''' then Some domain else None),
              reqTimeout = (if t \<ge> 0 then Some (int32 (Milliseconds t)) else None)\<rparr>]\<rparr>"
      have "turn (Suc (length tasks)) ?c1 taskName f domain (AtDispatch tasks) (PollTasks tasks) =
          (Some AtRegistered, dispatch ?c1 taskName f tasks)"
        using turn_dispatch [OF False, of "Suc (length tasks)" ?c1 taskName f domain "PollTasks tasks"]
        by simp
      with PollTasks False reach w show ?thesis
        by (simp add: loop_step_def BatchPoll_remote_def Let_def)
    qed
  qed
qed

end
